theory Spec2Isabelle
  imports Complex_Main
begin

section \<open>The Veo tool server: operation snapshots\<close>

text \<open>
  The embedding follows \<^verbatim>\<open>src/index.ts\<close>. An \<^verbatim>\<open>OperationResponse\<close> is the
  snapshot a GET on an operation path returns. Optional properties (\<^verbatim>\<open>done?\<close>,
  \<^verbatim>\<open>error?\<close>, \<^verbatim>\<open>response?\<close>, \<^verbatim>\<open>generateVideoResponse?\<close>) are options, with
  \<open>None\<close> for an absent property. The interface declares \<^verbatim>\<open>generatedSamples\<close> as
  required, but both handlers read it through \<^verbatim>\<open>?.\<close>, so it is an option here too.
  JavaScript strings are modelled as \<open>string\<close>.
\<close>

record op_error =
  code :: int
  message :: string

record video =
  uri :: string

record generatedSample =
  video :: video

record generateVideoResponse =
  generatedSamples :: "generatedSample list option"

record response =
  generateVideoResponse :: "generateVideoResponse option"

record OperationResponse =
  op_name :: string
  op_done :: "bool option"
  op_error :: "op_error option"
  op_response :: "response option"
  op_metadata :: "string option"

text \<open>
  Truthiness of \<^verbatim>\<open>operation.done\<close>: an absent flag and \<^verbatim>\<open>false\<close> are falsy.
  An error object, when present, is always truthy.
\<close>

definition truthy_done :: "OperationResponse \<Rightarrow> bool" where
  "truthy_done operation = (op_done operation = Some True)"

definition truthy_error :: "OperationResponse \<Rightarrow> bool" where
  "truthy_error operation = (op_error operation \<noteq> None)"

section \<open>Identifier normalization\<close>

text \<open>
  Lines 645-647, in the handler of \<^verbatim>\<open>veo_get_operation_status\<close>:
  \<^verbatim>\<open>params.operation_name.includes("/") ? params.operation_name : `operations/${params.operation_name}`\<close>.
\<close>

definition status_operationPath :: "string \<Rightarrow> string" where
  "status_operationPath operation_name =
     (if CHR ''/'' \<in> set operation_name then operation_name
      else ''operations/'' @ operation_name)"

text \<open>Lines 705-707, the same expression written again in the handler of \<^verbatim>\<open>veo_wait_for_video\<close>.\<close>

definition wait_operationPath :: "string \<Rightarrow> string" where
  "wait_operationPath operation_name =
     (if CHR ''/'' \<in> set operation_name then operation_name
      else ''operations/'' @ operation_name)"

section \<open>Classification and structured outputs\<close>

text \<open>
  \<^verbatim>\<open>a?.b\<close> yields \<^verbatim>\<open>undefined\<close> when \<^verbatim>\<open>a\<close> is absent; \<open>None\<close> stands for that
  \<^verbatim>\<open>undefined\<close>. \<^verbatim>\<open>x ?? d\<close> replaces an absent \<^verbatim>\<open>x\<close> by \<^verbatim>\<open>d\<close>.
\<close>

definition nullish :: "'a option \<Rightarrow> 'a \<Rightarrow> 'a" where
  "nullish x d = (case x of None \<Rightarrow> d | Some v \<Rightarrow> v)"

text \<open>\<^verbatim>\<open>operation.response?.generateVideoResponse?.generatedSamples\<close>\<close>

definition optional_samples :: "OperationResponse \<Rightarrow> generatedSample list option" where
  "optional_samples operation =
     Option.bind (op_response operation)
       (\<lambda>r. Option.bind (generateVideoResponse r) generatedSamples)"

text \<open>\<^verbatim>\<open>operation.response?.generateVideoResponse?.generatedSamples?.map(s => s.video.uri)\<close>\<close>

definition optional_video_urls :: "OperationResponse \<Rightarrow> string list option" where
  "optional_video_urls operation =
     map_option (map (\<lambda>s. uri (video s))) (optional_samples operation)"

text \<open>
  The object built at lines 653-659 (\<^verbatim>\<open>output\<close> of \<^verbatim>\<open>veo_get_operation_status\<close>);
  \<^verbatim>\<open>null\<close> in the \<^verbatim>\<open>error\<close> property is \<open>None\<close>.
\<close>

record status_output =
  s_operation_name :: string
  s_status :: string
  s_done :: bool
  s_error :: "op_error option"
  s_video_urls :: "string list"

definition status_structured :: "OperationResponse \<Rightarrow> status_output" where
  "status_structured operation =
     \<lparr> s_operation_name = op_name operation,
       s_status = (if truthy_error operation then ''failed''
                   else if truthy_done operation then ''completed'' else ''in_progress''),
       s_done = nullish (op_done operation) False,
       s_error = op_error operation,
       s_video_urls = nullish (optional_video_urls operation) [] \<rparr>"

text \<open>
  \<^verbatim>\<open>formatOperationStatus\<close> (lines 223-237) with \<^verbatim>\<open>format === ResponseFormat.JSON\<close>: the
  object handed to \<^verbatim>\<open>JSON.stringify\<close>. It has the same five properties. The markdown
  rendering of the same data (lines 240-266) and the serialisation to text are
  presentation and are not modelled.
\<close>

definition formatOperationStatus_json :: "OperationResponse \<Rightarrow> status_output" where
  "formatOperationStatus_json operation =
     (let status = (if truthy_done operation then ''completed'' else ''in_progress'');
          hasError = truthy_error operation
      in \<lparr> s_operation_name = op_name operation,
           s_status = (if hasError then ''failed'' else status),
           s_done = nullish (op_done operation) False,
           s_error = op_error operation,
           s_video_urls =
             (case optional_samples operation of
                None \<Rightarrow> []
              | Some samples \<Rightarrow>
                  if length samples \<noteq> 0 then map (\<lambda>s. uri (video s)) samples else []) \<rparr>)"

text \<open>
  The two outputs of \<^verbatim>\<open>veo_wait_for_video\<close>: the object of lines 726-733 returned on
  timeout, which has no \<^verbatim>\<open>error\<close> and no \<^verbatim>\<open>video_urls\<close> property, and the object of
  lines 766-774 built after the loop is left by \<^verbatim>\<open>break\<close>.
\<close>

record timeout_output =
  t_operation_name :: string
  t_status :: string
  t_done :: bool
  t_elapsed_seconds :: nat
  t_poll_count :: nat
  t_message :: string

record final_output =
  f_operation_name :: string
  f_status :: string
  f_done :: bool
  f_elapsed_seconds :: nat
  f_poll_count :: nat
  f_error :: "op_error option"
  f_video_urls :: "string list"

text \<open>
  \<^verbatim>\<open>Math.round(elapsed / 1000)\<close> on a non-negative whole number of milliseconds:
  rounding to the nearest integer, halves upwards.
\<close>

definition round_seconds :: "nat \<Rightarrow> nat" where
  "round_seconds elapsed = (elapsed + 500) div 1000"

text \<open>Decimal rendering of a number inside a template string.\<close>

function show_nat :: "nat \<Rightarrow> string" where
  "show_nat n =
     (if n < 10 then [''0123456789'' ! n]
      else show_nat (n div 10) @ [''0123456789'' ! (n mod 10)])"
  by pat_completeness auto
termination
  by (relation "measure id") auto

declare show_nat.simps [simp del]

definition timeout_structured :: "OperationResponse \<Rightarrow> nat \<Rightarrow> nat \<Rightarrow> nat \<Rightarrow> timeout_output" where
  "timeout_structured operation timeout_seconds elapsed pollCount =
     \<lparr> t_operation_name = op_name operation,
       t_status = ''timeout'',
       t_done = False,
       t_elapsed_seconds = round_seconds elapsed,
       t_poll_count = pollCount,
       t_message = ''Timed out after '' @ show_nat timeout_seconds
         @ '' seconds. The video may still be generating. Use veo_get_operation_status to check later.'' \<rparr>"

definition final_structured :: "OperationResponse \<Rightarrow> nat \<Rightarrow> nat \<Rightarrow> final_output" where
  "final_structured operation elapsed pollCount =
     \<lparr> f_operation_name = op_name operation,
       f_status = (if truthy_error operation then ''failed'' else ''completed''),
       f_done = True,
       f_elapsed_seconds = round_seconds elapsed,
       f_poll_count = pollCount,
       f_error = op_error operation,
       f_video_urls = nullish (optional_video_urls operation) [] \<rparr>"

section \<open>Errors thrown by a request\<close>

text \<open>
  What \<^verbatim>\<open>makeVeoRequest\<close> can throw: an axios error (with or without an HTTP response,
  with an optional error code, and its message), another \<^verbatim>\<open>Error\<close> (such as the one of
  \<^verbatim>\<open>getApiKey\<close>), or a value that is no \<^verbatim>\<open>Error\<close> at all, given by its \<^verbatim>\<open>String(error)\<close>.
\<close>

record axios_response =
  http_status :: nat
  data_error_message :: "string option"

datatype thrown =
    AxiosError "axios_response option" "string option" string
  | OtherError string
  | NonError string

fun handleApiError :: "thrown \<Rightarrow> string" where
  "handleApiError (AxiosError (Some resp) axios_code axios_message) =
     (let status = http_status resp;
          message = (case data_error_message resp of
                       Some m \<Rightarrow> if m \<noteq> [] then m else axios_message
                     | None \<Rightarrow> axios_message)
      in if status = 400 then
           ''Error: Invalid request. '' @ message @ ''. Check your parameters and try again.''
         else if status = 401 then
           ''Error: Invalid API key. Please check your GEMINI_API_KEY environment variable.''
         else if status = 403 then
           ''Error: Access denied. '' @ message @ ''. Ensure your API key has Veo access enabled.''
         else if status = 404 then
           ''Error: Resource not found. '' @ message @ ''. Check the operation name or model ID.''
         else if status = 429 then
           ''Error: Rate limit exceeded. Please wait before making more requests.''
         else if status = 500 then
           ''Error: Server error. '' @ message @ ''. Please try again later.''
         else ''Error: API request failed with status '' @ show_nat status @ ''. '' @ message)"
| "handleApiError (AxiosError None axios_code axios_message) =
     (if axios_code = Some ''ECONNABORTED'' then
        ''Error: Request timed out. Video generation can take several minutes. Use veo_get_operation_status to check progress.''
      else if axios_code = Some ''ENOTFOUND'' then
        ''Error: Network error. Please check your internet connection.''
      else ''Error: Unexpected error occurred: '' @ axios_message)"
| "handleApiError (OtherError error_message) =
     ''Error: Unexpected error occurred: '' @ error_message"
| "handleApiError (NonError rendered) =
     ''Error: Unexpected error occurred: '' @ rendered"

section \<open>The remote service, the clock and the timer\<close>

text \<open>
  A call runs against a world that fixes what the code cannot decide: what the \<open>n\<close>-th
  GET of the call on a path yields (a snapshot, or a thrown error), how many
  milliseconds that request takes, and by how many milliseconds the \<open>n\<close>-th
  \<^verbatim>\<open>setTimeout\<close> fires after the requested delay. Time is the reading of
  \<^verbatim>\<open>Date.now()\<close> in milliseconds. Two assumptions are built in: the clock does not run
  backwards, and a timer does not fire before its delay has passed. Synchronous code
  takes no time.
\<close>

datatype fetch_outcome = Rejects thrown | Resolves OperationResponse

record world =
  fetch_reply :: "string \<Rightarrow> nat \<Rightarrow> fetch_outcome"
  fetch_ms :: "nat \<Rightarrow> nat"
  timer_late_ms :: "nat \<Rightarrow> nat"

text \<open>
  What a call did, in order: \<open>FetchEv n path began ended\<close> is the \<open>n\<close>-th GET, on
  \<open>path\<close>, from \<open>began\<close> to \<open>ended\<close>; \<open>SleepEv began delay woke\<close> is a \<^verbatim>\<open>setTimeout\<close>
  of \<open>delay\<close> milliseconds awaited from \<open>began\<close> to \<open>woke\<close>.
\<close>

datatype event = FetchEv nat string nat nat | SleepEv nat nat nat

datatype ResponseFormat = MARKDOWN | JSON

record GetOperationStatusInput =
  operation_name :: string
  response_format :: ResponseFormat

record WaitForVideoInput = GetOperationStatusInput +
  poll_interval_seconds :: nat
  timeout_seconds :: nat

section \<open>The handler of veo\_get\_operation\_status\<close>

text \<open>
  A tool result is either the \<^verbatim>\<open>isError\<close> result, given by its text, or a result
  given by its \<^verbatim>\<open>structuredContent\<close>. The text \<^verbatim>\<open>content\<close> of a successful result
  renders the same data as JSON or markdown, depending on \<^verbatim>\<open>response_format\<close>; it
  is left out, so \<^verbatim>\<open>response_format\<close> does not influence the model.
\<close>

datatype status_result = StatusError string | StatusOk status_output

text \<open>
  Lines 642-671: one GET, at the clock \<open>now\<close>. The \<^verbatim>\<open>catch\<close> turns a thrown error
  into an \<^verbatim>\<open>isError\<close> result. The result is paired with the events of the call.
\<close>

definition veo_get_operation_status ::
  "world \<Rightarrow> nat \<Rightarrow> 'a GetOperationStatusInput_scheme \<Rightarrow> status_result \<times> event list" where
  "veo_get_operation_status w now params =
     (let operationPath = status_operationPath (operation_name params);
          ended = now + fetch_ms w 1;
          tr = [FetchEv 1 operationPath now ended]
      in case fetch_reply w operationPath 1 of
           Rejects e \<Rightarrow> (StatusError (handleApiError e), tr)
         | Resolves operation \<Rightarrow> (StatusOk (status_structured operation), tr))"

section \<open>The handler of veo\_wait\_for\_video\<close>

record poll_state =
  clock :: nat
  pollCount :: nat
  trace :: "event list"

datatype loop_exit =
    Break OperationResponse
  | Timeout OperationResponse nat
  | Throw thrown

text \<open>
  One pass through the body of \<^verbatim>\<open>while (true)\<close>, lines 717-760. \<open>Inl\<close> leaves the loop:
  by \<^verbatim>\<open>break\<close>, by the \<^verbatim>\<open>return\<close> of the timeout branch (with \<^verbatim>\<open>elapsed\<close>), or by an
  exception of the request. \<open>Inr\<close> is the state back at the head of the loop, after the
  sleep.
\<close>

definition iteration ::
  "world \<Rightarrow> string \<Rightarrow> nat \<Rightarrow> nat \<Rightarrow> nat \<Rightarrow> poll_state \<Rightarrow> (loop_exit \<times> poll_state) + poll_state" where
  "iteration w operationPath startTime timeoutMs pollIntervalMs s =
     (let n = pollCount s + 1;
          began = clock s;
          ended = began + fetch_ms w n;
          s1 = \<lparr> clock = ended, pollCount = n,
                 trace = trace s @ [FetchEv n operationPath began ended] \<rparr>
      in case fetch_reply w operationPath n of
           Rejects e \<Rightarrow> Inl (Throw e, s1)
         | Resolves operation \<Rightarrow>
             if truthy_done operation \<or> truthy_error operation then Inl (Break operation, s1)
             else
               let elapsed = ended - startTime
               in if elapsed \<ge> timeoutMs then Inl (Timeout operation elapsed, s1)
                  else
                    let woke = ended + pollIntervalMs + timer_late_ms w n
                    in Inr \<lparr> clock = woke, pollCount = n,
                             trace = trace s1 @ [SleepEv ended pollIntervalMs woke] \<rparr>)"

text \<open>The loop. \<open>None\<close> is a loop that never leaves.\<close>

partial_function (option) poll_loop ::
  "world \<Rightarrow> string \<Rightarrow> nat \<Rightarrow> nat \<Rightarrow> nat \<Rightarrow> poll_state \<Rightarrow> (loop_exit \<times> poll_state) option" where
  "poll_loop w operationPath startTime timeoutMs pollIntervalMs s =
     (case iteration w operationPath startTime timeoutMs pollIntervalMs s of
        Inl r \<Rightarrow> Some r
      | Inr s' \<Rightarrow> poll_loop w operationPath startTime timeoutMs pollIntervalMs s')"

declare poll_loop.simps [code]

datatype wait_result =
    WaitError string
  | WaitTimeout timeout_output
  | WaitFinal final_output

text \<open>
  Lines 702-786. \<open>now\<close> is the clock when the handler starts. The result is paired with
  the events of the call.
\<close>

definition veo_wait_for_video ::
  "world \<Rightarrow> nat \<Rightarrow> 'a WaitForVideoInput_scheme \<Rightarrow> (wait_result \<times> event list) option" where
  "veo_wait_for_video w now params =
     (let operationPath = wait_operationPath (operation_name params);
          startTime = now;
          timeoutMs = timeout_seconds params * 1000;
          pollIntervalMs = poll_interval_seconds params * 1000
      in case poll_loop w operationPath startTime timeoutMs pollIntervalMs
                \<lparr> clock = now, pollCount = 0, trace = [] \<rparr> of
           None \<Rightarrow> None
         | Some (Throw e, s) \<Rightarrow> Some (WaitError (handleApiError e), trace s)
         | Some (Timeout operation elapsed, s) \<Rightarrow>
             Some (WaitTimeout
                     (timeout_structured operation (timeout_seconds params) elapsed (pollCount s)),
                   trace s)
         | Some (Break operation, s) \<Rightarrow>
             (let elapsed = clock s - startTime
              in Some (WaitFinal (final_structured operation elapsed (pollCount s)), trace s)))"

section \<open>Input validation and dispatch\<close>

text \<open>
  The arguments of a tool call as they arrive: each known key is absent or carries a
  JSON value, and \<open>arg_other_keys\<close> lists the keys the schema does not know. A
  number is given by its exact value.
\<close>

datatype jsvalue = JString string | JNumber rat | JBoolean bool | JNull | JObject

record raw_arguments =
  arg_operation_name :: "jsvalue option"
  arg_poll_interval_seconds :: "jsvalue option"
  arg_timeout_seconds :: "jsvalue option"
  arg_response_format :: "jsvalue option"
  arg_other_keys :: "string list"

datatype issue_code =
  invalid_type | too_small | too_big | invalid_enum_value | unrecognized_keys

type_synonym issue = "string \<times> issue_code"

text \<open>\<^verbatim>\<open>Number.isInteger\<close>, the check behind \<^verbatim>\<open>.int()\<close>.\<close>

definition is_integer :: "rat \<Rightarrow> bool" where
  "is_integer r = (of_int \<lfloor>r\<rfloor> = r)"

text \<open>
  The checks of the schema library, as far as \<^verbatim>\<open>WaitForVideoInputSchema\<close> (lines
  347-366) uses them. \<^verbatim>\<open>z.string().min(1)\<close>: a string of at least one character.
\<close>

definition z_string_min1 :: "string \<Rightarrow> jsvalue option \<Rightarrow> issue list + string" where
  "z_string_min1 key v =
     (case v of
        Some (JString s) \<Rightarrow> if length s < 1 then Inl [(key, too_small)] else Inr s
      | _ \<Rightarrow> Inl [(key, invalid_type)])"

text \<open>
  \<^verbatim>\<open>z.number().int().min(lo).max(hi).default(d)\<close>: an absent key takes the default;
  a number is checked against all three constraints; anything else has the wrong type.
\<close>

definition z_int_range :: "string \<Rightarrow> int \<Rightarrow> int \<Rightarrow> nat \<Rightarrow> jsvalue option \<Rightarrow> issue list + nat" where
  "z_int_range key lo hi dflt v =
     (case v of
        None \<Rightarrow> Inr dflt
      | Some (JNumber r) \<Rightarrow>
          (let issues =
                 (if is_integer r then [] else [(key, invalid_type)])
                 @ (if r < of_int lo then [(key, too_small)] else [])
                 @ (if of_int hi < r then [(key, too_big)] else [])
           in if issues = [] then Inr (nat \<lfloor>r\<rfloor>) else Inl issues)
      | Some _ \<Rightarrow> Inl [(key, invalid_type)])"

text \<open>\<^verbatim>\<open>z.nativeEnum(ResponseFormat).default(ResponseFormat.MARKDOWN)\<close>\<close>

definition z_ResponseFormat :: "string \<Rightarrow> jsvalue option \<Rightarrow> issue list + ResponseFormat" where
  "z_ResponseFormat key v =
     (case v of
        None \<Rightarrow> Inr MARKDOWN
      | Some (JString s) \<Rightarrow>
          if s = ''markdown'' then Inr MARKDOWN
          else if s = ''json'' then Inr JSON
          else Inl [(key, invalid_enum_value)]
      | Some (JNumber r) \<Rightarrow> Inl [(key, invalid_enum_value)]
      | Some _ \<Rightarrow> Inl [(key, invalid_type)])"

definition issues_of :: "issue list + 'a \<Rightarrow> issue list" where
  "issues_of r = (case r of Inl issues \<Rightarrow> issues | Inr v \<Rightarrow> [])"

text \<open>
  \<^verbatim>\<open>WaitForVideoInputSchema\<close>, lines 347-366: the four keys, and \<^verbatim>\<open>.strict()\<close>, which
  rejects any other key. The issues of all keys are collected.
\<close>

definition WaitForVideoInputSchema :: "raw_arguments \<Rightarrow> issue list + WaitForVideoInput" where
  "WaitForVideoInputSchema raw =
     (let name = z_string_min1 ''operation_name'' (arg_operation_name raw);
          poll = z_int_range ''poll_interval_seconds'' 5 60 10 (arg_poll_interval_seconds raw);
          timeout = z_int_range ''timeout_seconds'' 30 600 300 (arg_timeout_seconds raw);
          format = z_ResponseFormat ''response_format'' (arg_response_format raw);
          strict = (if arg_other_keys raw = [] then [] else [([], unrecognized_keys)])
      in case (name, poll, timeout, format, strict) of
           (Inr n, Inr p, Inr t, Inr f, []) \<Rightarrow>
             Inr \<lparr> operation_name = n, response_format = f,
                   poll_interval_seconds = p, timeout_seconds = t \<rparr>
         | _ \<Rightarrow>
             Inl (issues_of name @ issues_of poll @ issues_of timeout @ issues_of format @ strict))"

datatype 'r tool_call = InvalidParams "issue list" | Handled 'r

text \<open>
  Modelled from the spec: the dispatch of a tool call is done by the protocol library
  behind \<^verbatim>\<open>server.registerTool\<close>, which is not part of the source. Following the spec
  (bounds are validated before entering the poller; a validation error is rejected
  before any remote call), the arguments are parsed with the tool's \<^verbatim>\<open>inputSchema\<close>,
  and the handler runs only on the parsed value.
\<close>

definition call_veo_wait_for_video ::
  "world \<Rightarrow> nat \<Rightarrow> raw_arguments \<Rightarrow> (wait_result tool_call \<times> event list) option" where
  "call_veo_wait_for_video w now raw =
     (case WaitForVideoInputSchema raw of
        Inl issues \<Rightarrow> Some (InvalidParams issues, [])
      | Inr params \<Rightarrow>
          map_option (\<lambda>(r, tr). (Handled r, tr)) (veo_wait_for_video w now params))"

section \<open>Vocabulary of the properties\<close>

text \<open>
  A fetch is non-terminal when it yields a snapshot whose \<^verbatim>\<open>done\<close> is not true and
  which carries no error.
\<close>

definition non_terminal :: "world \<Rightarrow> string \<Rightarrow> nat \<Rightarrow> bool" where
  "non_terminal w path n =
     (case fetch_reply w path n of
        Rejects e \<Rightarrow> False
      | Resolves operation \<Rightarrow> \<not> truthy_done operation \<and> \<not> truthy_error operation)"

text \<open>
  The schedule of a wait call that started at \<open>now\<close> and has not left its loop: when the
  \<open>n\<close>-th fetch begins and ends. \<open>drift w n\<close> is the part of the elapsed time at the end
  of the \<open>n\<close>-th fetch that is not sleeping: the time spent in fetches \<open>1..n\<close> and the
  lateness of the timers between them.
\<close>

definition fetch_began :: "world \<Rightarrow> nat \<Rightarrow> nat \<Rightarrow> nat \<Rightarrow> nat" where
  "fetch_began w now pollIntervalMs n =
     now + (n - 1) * pollIntervalMs + (\<Sum>i = 1..<n. fetch_ms w i + timer_late_ms w i)"

definition fetch_ended :: "world \<Rightarrow> nat \<Rightarrow> nat \<Rightarrow> nat \<Rightarrow> nat" where
  "fetch_ended w now pollIntervalMs n = fetch_began w now pollIntervalMs n + fetch_ms w n"

definition drift :: "world \<Rightarrow> nat \<Rightarrow> nat" where
  "drift w n = (\<Sum>i = 1..<n. fetch_ms w i + timer_late_ms w i) + fetch_ms w n"

text \<open>\<open>\<lceil>t / p\<rceil>\<close> on natural numbers.\<close>

definition ceil_div :: "nat \<Rightarrow> nat \<Rightarrow> nat" where
  "ceil_div t p = (t + p - 1) div p"

text \<open>How the loop is left at its \<open>n\<close>-th fetch, if it is left there.\<close>

definition expected_exit :: "world \<Rightarrow> string \<Rightarrow> nat \<Rightarrow> nat \<Rightarrow> loop_exit" where
  "expected_exit w path elapsed n =
     (case fetch_reply w path n of
        Rejects e \<Rightarrow> Throw e
      | Resolves operation \<Rightarrow>
          if truthy_done operation \<or> truthy_error operation then Break operation
          else Timeout operation elapsed)"

text \<open>
  The loop is on schedule in a state when its clock is the begin of the next fetch and
  every fetch so far was non-terminal and ended before the timeout.
\<close>

definition on_schedule :: "world \<Rightarrow> string \<Rightarrow> nat \<Rightarrow> nat \<Rightarrow> nat \<Rightarrow> poll_state \<Rightarrow> bool" where
  "on_schedule w path now T P s =
     (clock s = fetch_began w now P (pollCount s + 1)
      \<and> (\<forall>i. 1 \<le> i \<and> i \<le> pollCount s \<longrightarrow>
             non_terminal w path i \<and> fetch_ended w now P i - now < T))"

text \<open>The begin and end of the fetches of a trace, in order.\<close>

fun fetch_spans :: "event list \<Rightarrow> (nat \<times> nat) list" where
  "fetch_spans [] = []"
| "fetch_spans (FetchEv n path began ended # evs) = (began, ended) # fetch_spans evs"
| "fetch_spans (SleepEv began delay woke # evs) = fetch_spans evs"

text \<open>
  Fetches are sequential and spaced: each one begins after the one before it has ended,
  and at least \<open>P\<close> milliseconds after the one before it began.
\<close>

fun spaced :: "nat \<Rightarrow> (nat \<times> nat) list \<Rightarrow> bool" where
  "spaced P ((b1, e1) # (b2, e2) # rest) =
     (e1 \<le> b2 \<and> b1 + P \<le> b2 \<and> spaced P ((b2, e2) # rest))"
| "spaced P spans = True"

text \<open>
  Every sleep of a trace begins while the elapsed time is below the timeout, asks for
  \<open>P\<close> milliseconds, and lasts at least that long.
\<close>

fun sleeps_before_deadline :: "nat \<Rightarrow> nat \<Rightarrow> nat \<Rightarrow> event list \<Rightarrow> bool" where
  "sleeps_before_deadline startTime T P [] = True"
| "sleeps_before_deadline startTime T P (SleepEv began delay woke # evs) =
     (began - startTime < T \<and> delay = P \<and> began + delay \<le> woke
      \<and> sleeps_before_deadline startTime T P evs)"
| "sleeps_before_deadline startTime T P (FetchEv n path began ended # evs) =
     sleeps_before_deadline startTime T P evs"

text \<open>
  Two invariants of the loop. The trace is paced when its fetches are spaced, its sleeps
  begin before the deadline, and the clock is at least \<open>P\<close> past the begin of the last
  fetch and not before its end. The trace is a faithful log when it holds one fetch per
  poll, each on the path of the call and each answered with a snapshot.
\<close>

definition paced :: "nat \<Rightarrow> nat \<Rightarrow> nat \<Rightarrow> poll_state \<Rightarrow> bool" where
  "paced startTime T P s =
     (spaced P (fetch_spans (trace s))
      \<and> sleeps_before_deadline startTime T P (trace s)
      \<and> (fetch_spans (trace s) \<noteq> [] \<longrightarrow>
           snd (last (fetch_spans (trace s))) \<le> clock s
           \<and> fst (last (fetch_spans (trace s))) + P \<le> clock s))"

definition logged :: "world \<Rightarrow> string \<Rightarrow> poll_state \<Rightarrow> bool" where
  "logged w path s =
     (length (fetch_spans (trace s)) = pollCount s
      \<and> (\<forall>n p b e. FetchEv n p b e \<in> set (trace s) \<longrightarrow>
             p = path \<and> (\<exists>operation. fetch_reply w p n = Resolves operation)))"

text \<open>The paths of the requests of a trace, in order.\<close>

fun requested_paths :: "event list \<Rightarrow> string list" where
  "requested_paths [] = []"
| "requested_paths (FetchEv n path began ended # evs) = path # requested_paths evs"
| "requested_paths (SleepEv began delay woke # evs) = requested_paths evs"

text \<open>
  Reading the property \<^verbatim>\<open>video_urls\<close> of the \<^verbatim>\<open>structuredContent\<close> of a tool result;
  \<open>None\<close> is the \<^verbatim>\<open>undefined\<close> that the read yields. The objects of lines 653-659
  and 766-774 have the property. The timeout object of lines 726-733 does not, and an
  \<^verbatim>\<open>isError\<close> result (lines 666-669, 781-784) has no \<^verbatim>\<open>structuredContent\<close>.
\<close>

fun status_video_urls :: "status_result \<Rightarrow> string list option" where
  "status_video_urls (StatusOk out) = Some (s_video_urls out)"
| "status_video_urls (StatusError text) = None"

fun wait_video_urls :: "wait_result \<Rightarrow> string list option" where
  "wait_video_urls (WaitFinal out) = Some (f_video_urls out)"
| "wait_video_urls (WaitTimeout out) = None"
| "wait_video_urls (WaitError text) = None"

text \<open>A raw value that is a whole number within the given bounds.\<close>

definition integer_within :: "int \<Rightarrow> int \<Rightarrow> jsvalue \<Rightarrow> bool" where
  "integer_within lo hi v =
     (case v of
        JNumber r \<Rightarrow> is_integer r \<and> of_int lo \<le> r \<and> r \<le> of_int hi
      | _ \<Rightarrow> False)"

text \<open>The artifact list of a snapshot when every level down to the samples is present.\<close>

definition video_uris :: "OperationResponse \<Rightarrow> string list" where
  "video_uris operation =
     (case op_response operation of
        None \<Rightarrow> []
      | Some r \<Rightarrow>
          (case generateVideoResponse r of
             None \<Rightarrow> []
           | Some g \<Rightarrow>
               (case generatedSamples g of
                  None \<Rightarrow> []
                | Some samples \<Rightarrow> map (\<lambda>s. uri (video s)) samples)))"

section \<open>Sample snapshots and worlds\<close>

definition pending :: OperationResponse where
  "pending = \<lparr> op_name = ''operations/abc123'', op_done = None, op_error = None,
       op_response = None, op_metadata = None \<rparr>"

definition finished :: OperationResponse where
  "finished = \<lparr> op_name = ''operations/abc123'', op_done = Some True, op_error = None,
       op_response = Some \<lparr> generateVideoResponse = Some \<lparr> generatedSamples =
         Some [\<lparr> video = \<lparr> uri = ''uri1'' \<rparr> \<rparr>] \<rparr> \<rparr>,
       op_metadata = None \<rparr>"

text \<open>Done, without an error, and without a response: no artifact list.\<close>

definition done_without_response :: OperationResponse where
  "done_without_response = \<lparr> op_name = ''operations/abc123'', op_done = Some True,
       op_error = None, op_response = None, op_metadata = None \<rparr>"

text \<open>An error and no \<^verbatim>\<open>done\<close> property.\<close>

definition denied :: OperationResponse where
  "denied = \<lparr> op_name = ''operations/abc123'', op_done = None,
       op_error = Some \<lparr> code = 7, message = ''denied'' \<rparr>,
       op_response = None, op_metadata = None \<rparr>"

text \<open>Done and failed at once, as a long-running operation reports a failure.\<close>

definition done_with_error :: OperationResponse where
  "done_with_error = \<lparr> op_name = ''operations/abc123'', op_done = Some True,
       op_error = Some \<lparr> code = 13, message = ''internal'' \<rparr>,
       op_response = None, op_metadata = None \<rparr>"

text \<open>
  Worlds in which every request takes 200 milliseconds and every timer is exact: the
  operation never completes; it completes at the third fetch; it completes at the
  119th fetch; the first fetch reports done together with an error; the first
  fetch reports an error without a done flag; the second request is answered with
  HTTP 404.
\<close>

definition never_done :: world where
  "never_done = \<lparr> fetch_reply = (\<lambda>path n. Resolves pending),
       fetch_ms = (\<lambda>n. 200), timer_late_ms = (\<lambda>n. 0) \<rparr>"

definition done_at_3 :: world where
  "done_at_3 = \<lparr> fetch_reply = (\<lambda>path n. if n = 3 then Resolves finished else Resolves pending),
       fetch_ms = (\<lambda>n. 200), timer_late_ms = (\<lambda>n. 0) \<rparr>"

definition done_at_119 :: world where
  "done_at_119 = \<lparr> fetch_reply = (\<lambda>path n. if n = 119 then Resolves finished else Resolves pending),
       fetch_ms = (\<lambda>n. 200), timer_late_ms = (\<lambda>n. 0) \<rparr>"

definition fails_at_once :: world where
  "fails_at_once = \<lparr> fetch_reply = (\<lambda>path n. Resolves done_with_error),
       fetch_ms = (\<lambda>n. 200), timer_late_ms = (\<lambda>n. 0) \<rparr>"

definition denied_at_once :: world where
  "denied_at_once = \<lparr> fetch_reply = (\<lambda>path n. Resolves denied),
       fetch_ms = (\<lambda>n. 200), timer_late_ms = (\<lambda>n. 0) \<rparr>"

definition not_found_at_2 :: world where
  "not_found_at_2 = \<lparr> fetch_reply = (\<lambda>path n.
         if n = 2 then Rejects (AxiosError
             (Some \<lparr> http_status = 404, data_error_message = Some ''Operation not found'' \<rparr>)
             (Some ''ERR_BAD_REQUEST'') ''Request failed with status code 404'')
         else Resolves pending),
       fetch_ms = (\<lambda>n. 200), timer_late_ms = (\<lambda>n. 0) \<rparr>"

text \<open>The same timing, with the operation done, with one sample, at every fetch.\<close>

definition done_at_once :: world where
  "done_at_once = \<lparr> fetch_reply = (\<lambda>path n. Resolves finished),
       fetch_ms = (\<lambda>n. 200), timer_late_ms = (\<lambda>n. 0) \<rparr>"

text \<open>
  Raw arguments: well-formed ones, the same with a poll interval of 4, and the same
  with a timeout of 45.5.
\<close>

definition args_ok :: raw_arguments where
  "args_ok = \<lparr> arg_operation_name = Some (JString ''abc123''),
       arg_poll_interval_seconds = Some (JNumber 10),
       arg_timeout_seconds = Some (JNumber 30),
       arg_response_format = Some (JString ''json''),
       arg_other_keys = [] \<rparr>"

definition args_poll_4 :: raw_arguments where
  "args_poll_4 = args_ok \<lparr> arg_poll_interval_seconds := Some (JNumber 4) \<rparr>"

definition args_timeout_fraction :: raw_arguments where
  "args_timeout_fraction = args_ok \<lparr> arg_timeout_seconds := Some (JNumber (91 / 2)) \<rparr>"

section \<open>Properties of normalization\<close>

text \<open>
  C3. Normalization is idempotent. A string that contains the separator \<open>/\<close> is returned
  unchanged; a bare token is prefixed with \<open>operations/\<close>, and normalizing that qualified
  form again returns it unchanged. In every case normalizing twice is normalizing once.
\<close>

theorem operationPath_idempotent:
  "(CHR ''/'' \<in> set s \<longrightarrow> status_operationPath s = s)
   \<and> (CHR ''/'' \<notin> set s \<longrightarrow>
        status_operationPath s = ''operations/'' @ s
        \<and> status_operationPath (''operations/'' @ s) = ''operations/'' @ s)
   \<and> status_operationPath (status_operationPath s) = status_operationPath s"
  by (simp add: status_operationPath_def)

theorem operationPath_idempotent_witness:
  "CHR ''/'' \<in> set ''operations/abc123''
   \<and> status_operationPath ''operations/abc123'' = ''operations/abc123''
   \<and> CHR ''/'' \<notin> set ''abc123''
   \<and> status_operationPath ''abc123'' = ''operations/abc123''
   \<and> status_operationPath (status_operationPath ''abc123'') = ''operations/abc123''"
  using operationPath_idempotent [of "''operations/abc123''"]
    operationPath_idempotent [of "''abc123''"]
  by simp

text \<open>The two normalizations are equal as functions.\<close>

lemma operationPath_same:
  "status_operationPath = wait_operationPath"
  by (rule ext) (simp add: status_operationPath_def wait_operationPath_def)

section \<open>The loop\<close>

lemma poll_loop_Inl:
  "iteration w path st T P s = Inl r \<Longrightarrow> poll_loop w path st T P s = Some r"
  by (subst poll_loop.simps) simp

lemma poll_loop_Inr:
  "iteration w path st T P s = Inr s' \<Longrightarrow>
   poll_loop w path st T P s = poll_loop w path st T P s'"
  by (subst poll_loop.simps) simp

text \<open>What one pass does when it returns to the head of the loop, and when it leaves.\<close>

lemma iteration_Inr:
  assumes "iteration w path st T P s = Inr s'"
  shows "\<exists>ended. ended = clock s + fetch_ms w (pollCount s + 1)
     \<and> ended - st < T
     \<and> non_terminal w path (pollCount s + 1)
     \<and> s' = \<lparr> clock = ended + P + timer_late_ms w (pollCount s + 1),
              pollCount = pollCount s + 1,
              trace = trace s @ [FetchEv (pollCount s + 1) path (clock s) ended,
                 SleepEv ended P (ended + P + timer_late_ms w (pollCount s + 1))] \<rparr>"
  using assms unfolding iteration_def non_terminal_def
  by (auto simp: Let_def split: fetch_outcome.splits if_splits)

lemma iteration_Inl:
  assumes "iteration w path st T P s = Inl (r, s')"
  shows "\<exists>ended. ended = clock s + fetch_ms w (pollCount s + 1)
     \<and> r = expected_exit w path (ended - st) (pollCount s + 1)
     \<and> (\<not> non_terminal w path (pollCount s + 1) \<or> T \<le> ended - st)
     \<and> s' = \<lparr> clock = ended, pollCount = pollCount s + 1,
              trace = trace s @ [FetchEv (pollCount s + 1) path (clock s) ended] \<rparr>"
  using assms unfolding iteration_def non_terminal_def expected_exit_def
  by (auto simp: Let_def split: fetch_outcome.splits if_splits)

text \<open>
  With a positive interval the loop is left: each sleep moves the clock towards the
  deadline. An invariant of the passes holds in the state from which the loop is left.
\<close>

lemma poll_loop_rule:
  assumes pos: "0 < P" and init: "I s"
    and step: "\<And>s s'. I s \<Longrightarrow> iteration w path st T P s = Inr s' \<Longrightarrow> I s'"
  shows "\<exists>r s0. poll_loop w path st T P s = Some r \<and> I s0
           \<and> iteration w path st T P s0 = Inl r"
  using init
proof (induction "st + T - clock s" arbitrary: s rule: less_induct)
  case less
  show ?case
  proof (cases "iteration w path st T P s")
    case (Inl r)
    with less.prems show ?thesis using poll_loop_Inl by blast
  next
    case (Inr s')
    have "clock s + P \<le> clock s'" "clock s - st < T"
      using iteration_Inr [OF Inr] by auto
    then have "st + T - clock s' < st + T - clock s"
      using pos by linarith
    moreover have "I s'" using step [OF less.prems Inr] .
    ultimately obtain r s0 where "poll_loop w path st T P s' = Some r" "I s0"
      "iteration w path st T P s0 = Inl r"
      using less.hyps by blast
    then show ?thesis using Inr by (auto simp: poll_loop_Inr)
  qed
qed

section \<open>The schedule\<close>

lemma fetch_began_Suc:
  "1 \<le> n \<Longrightarrow> fetch_began w now P (Suc n) = fetch_ended w now P n + P + timer_late_ms w n"
  by (cases n) (simp_all add: fetch_began_def fetch_ended_def)

lemma fetch_ended_elapsed:
  "fetch_ended w now P n - now = (n - 1) * P + drift w n"
  by (simp add: fetch_ended_def fetch_began_def drift_def)

lemma on_schedule_step:
  assumes "on_schedule w path now T P s" and "iteration w path now T P s = Inr s'"
  shows "on_schedule w path now T P s'"
proof -
  let ?n = "pollCount s + 1"
  have c: "clock s = fetch_began w now P ?n" using assms(1) by (simp add: on_schedule_def)
  from iteration_Inr [OF assms(2)] have nt: "non_terminal w path ?n"
    and el: "clock s + fetch_ms w ?n - now < T"
    and cl: "clock s' = clock s + fetch_ms w ?n + P + timer_late_ms w ?n"
    and pc: "pollCount s' = ?n"
    by auto
  have e: "fetch_ended w now P ?n = clock s + fetch_ms w ?n"
    by (simp add: fetch_ended_def c)
  have "fetch_began w now P (Suc ?n) = fetch_ended w now P ?n + P + timer_late_ms w ?n"
    by (rule fetch_began_Suc) simp
  then have "clock s' = fetch_began w now P (pollCount s' + 1)"
    unfolding pc e cl by simp
  moreover have "non_terminal w path i \<and> fetch_ended w now P i - now < T"
    if "1 \<le> i \<and> i \<le> pollCount s'" for i
  proof (cases "i = ?n")
    case True
    then show ?thesis using nt el e by simp
  next
    case False
    then have "i \<le> pollCount s" using that pc by simp
    then show ?thesis using assms(1) that by (simp add: on_schedule_def)
  qed
  ultimately show ?thesis by (simp add: on_schedule_def)
qed

text \<open>
  The loop is left at the first fetch that is terminal, is rejected, or ends at or after
  the timeout; the fetches before it were non-terminal and ended before the timeout.
\<close>

lemma poll_loop_characterised:
  assumes "0 < P"
  shows "\<exists>n s'. 1 \<le> n
     \<and> poll_loop w path now T P \<lparr> clock = now, pollCount = 0, trace = [] \<rparr>
         = Some (expected_exit w path (fetch_ended w now P n - now) n, s')
     \<and> pollCount s' = n \<and> clock s' = fetch_ended w now P n
     \<and> (\<forall>i. 1 \<le> i \<and> i < n \<longrightarrow> non_terminal w path i \<and> fetch_ended w now P i - now < T)
     \<and> (\<not> non_terminal w path n \<or> T \<le> fetch_ended w now P n - now)"
proof -
  let ?s = "\<lparr> clock = now, pollCount = 0, trace = [] \<rparr>"
  have "on_schedule w path now T P ?s"
    by (simp add: on_schedule_def fetch_began_def)
  then have "\<exists>r s0. poll_loop w path now T P ?s = Some r
      \<and> on_schedule w path now T P s0 \<and> iteration w path now T P s0 = Inl r"
    using assms on_schedule_step by (intro poll_loop_rule) auto
  then obtain r s0 where run: "poll_loop w path now T P ?s = Some r"
    and inv: "on_schedule w path now T P s0"
    and ex: "iteration w path now T P s0 = Inl r"
    by blast
  obtain x s' where r: "r = (x, s')" by (cases r)
  let ?n = "pollCount s0 + 1"
  have c: "clock s0 + fetch_ms w ?n = fetch_ended w now P ?n"
    using inv by (simp add: on_schedule_def fetch_ended_def)
  from iteration_Inl [OF ex [unfolded r]]
  have "x = expected_exit w path (fetch_ended w now P ?n - now) ?n"
    and "\<not> non_terminal w path ?n \<or> T \<le> fetch_ended w now P ?n - now"
    and "pollCount s' = ?n" and "clock s' = fetch_ended w now P ?n"
    unfolding c by auto
  moreover have "\<forall>i. 1 \<le> i \<and> i < ?n \<longrightarrow>
          non_terminal w path i \<and> fetch_ended w now P i - now < T"
    using inv by (simp add: on_schedule_def)
  ultimately show ?thesis
    using run r by (intro exI [of _ ?n] exI [of _ s']) simp
qed

section \<open>Arithmetic\<close>

lemma ceil_div_upper: "0 < p \<Longrightarrow> t \<le> ceil_div t p * p"
proof -
  assume p: "0 < p"
  have "(t + p - 1) div p * p + (t + p - 1) mod p = t + p - 1" by simp
  moreover have "(t + p - 1) mod p < p" using p by simp
  ultimately show ?thesis unfolding ceil_div_def by linarith
qed

lemma ceil_div_step: "0 < p \<Longrightarrow> ceil_div t p * p < t + p"
proof -
  assume p: "0 < p"
  have "(t + p - 1) div p * p \<le> t + p - 1" by simp
  then show ?thesis using p unfolding ceil_div_def by linarith
qed

lemma ceil_div_lower: "0 < p \<Longrightarrow> 0 < t \<Longrightarrow> (ceil_div t p - 1) * p < t"
  using ceil_div_step [of p t] by (simp add: diff_mult_distrib)

text \<open>\<open>ceil_div\<close> is the ceiling of the quotient.\<close>

lemma ceil_div_ceiling:
  assumes "0 < p"
  shows "int (ceil_div t p) = \<lceil>real t / real p\<rceil>"
proof -
  have "real t \<le> real (ceil_div t p * p)"
    using ceil_div_upper [OF assms, of t] by (simp only: of_nat_le_iff)
  then have u: "real t / real p \<le> real (ceil_div t p)"
    using assms by (simp add: field_simps)
  have "real (ceil_div t p * p) < real (t + p)"
    using ceil_div_step [OF assms, of t] by (simp only: of_nat_less_iff)
  then have l: "real (ceil_div t p) - 1 < real t / real p"
    using assms by (simp add: field_simps)
  have "\<lceil>real t / real p\<rceil> = int (ceil_div t p)"
    by (rule ceiling_unique) (use u l in simp_all)
  then show ?thesis by simp
qed

lemma round_seconds_ge: "t * 1000 \<le> elapsed \<Longrightarrow> t \<le> round_seconds elapsed"
  unfolding round_seconds_def by linarith

lemma drift_steady:
  "fetch_ms w = (\<lambda>n. a) \<Longrightarrow> timer_late_ms w = (\<lambda>n. 0) \<Longrightarrow> drift w n = (n - 1) * a + a"
  by (simp add: drift_def)

section \<open>Waiting for an operation\<close>

text \<open>
  The result of a wait call whose \<open>n\<close>-th fetch is the first to end at or after the
  timeout, all fetches up to it being non-terminal.
\<close>

lemma wait_timeout_at:
  assumes P: "0 < p" and n: "1 \<le> n"
    and before: "\<forall>i. 1 \<le> i \<and> i < n \<longrightarrow> non_terminal w (wait_operationPath nm) i
        \<and> fetch_ended w now (p * 1000) i - now < t * 1000"
    and nth: "fetch_reply w (wait_operationPath nm) n = Resolves operation"
      "\<not> truthy_done operation" "\<not> truthy_error operation"
    and late: "t * 1000 \<le> fetch_ended w now (p * 1000) n - now"
  shows "map_option fst (veo_wait_for_video w now
        \<lparr> operation_name = nm, response_format = fmt,
          poll_interval_seconds = p, timeout_seconds = t \<rparr>)
     = Some (WaitTimeout
         (timeout_structured operation t (fetch_ended w now (p * 1000) n - now) n))"
proof -
  let ?path = "wait_operationPath nm"
  let ?P = "p * 1000" and ?T = "t * 1000"
  have P': "0 < ?P" using P by simp
  from poll_loop_characterised [OF P', of w ?path now ?T]
  obtain m s' where m: "1 \<le> m"
    and run: "poll_loop w ?path now ?T ?P \<lparr> clock = now, pollCount = 0, trace = [] \<rparr>
         = Some (expected_exit w ?path (fetch_ended w now ?P m - now) m, s')"
    and pc: "pollCount s' = m"
    and quiet: "\<forall>i. 1 \<le> i \<and> i < m \<longrightarrow>
         non_terminal w ?path i \<and> fetch_ended w now ?P i - now < ?T"
    and last: "\<not> non_terminal w ?path m \<or> ?T \<le> fetch_ended w now ?P m - now"
    by blast
  have "\<not> m < n" using before last m by auto
  moreover have "\<not> n < m" using quiet late n by auto
  ultimately have mn: "m = n" by simp
  have ex: "expected_exit w ?path (fetch_ended w now ?P n - now) n
      = Timeout operation (fetch_ended w now ?P n - now)"
    using nth by (simp add: expected_exit_def)
  show ?thesis using run pc ex unfolding mn by (simp add: veo_wait_for_video_def)
qed

text \<open>
  C1 (amended). For a valid poll interval \<open>p\<close> and timeout \<open>t\<close> with \<open>t \<ge> p\<close>, a wait
  call against an operation whose every fetch is non-terminal returns the timeout
  outcome: status \<open>timeout\<close>, not an error result, elapsed seconds at least \<open>t\<close>, and a
  poll count of at least 1 and at most \<open>\<lceil>t/p\<rceil> + 1\<close>. The poll count is at least
  \<open>\<lceil>t/p\<rceil> - 1\<close> when the time spent in the fetches and in late timers stays within two
  poll intervals.
\<close>

theorem wait_never_completing_times_out:
  assumes p: "5 \<le> p" "p \<le> 60" and t: "30 \<le> t" "t \<le> 600" and tp: "p \<le> t"
    and never: "\<forall>n. non_terminal w (wait_operationPath nm) n"
  shows "\<exists>out tr.
      veo_wait_for_video w now
        \<lparr> operation_name = nm, response_format = fmt,
          poll_interval_seconds = p, timeout_seconds = t \<rparr> = Some (WaitTimeout out, tr)
      \<and> t_status out = ''timeout'' \<and> \<not> t_done out
      \<and> t \<le> t_elapsed_seconds out
      \<and> 1 \<le> t_poll_count out \<and> t_poll_count out \<le> ceil_div t p + 1
      \<and> ((\<forall>n \<le> ceil_div t p. drift w n \<le> 2 * (p * 1000)) \<longrightarrow>
            ceil_div t p - 1 \<le> t_poll_count out)"
proof -
  let ?path = "wait_operationPath nm"
  let ?P = "p * 1000" and ?T = "t * 1000" and ?c = "ceil_div t p"
  have P: "0 < ?P" using p by simp
  from poll_loop_characterised [OF P, of w ?path now ?T]
  obtain n s' where n: "1 \<le> n"
    and run: "poll_loop w ?path now ?T ?P \<lparr> clock = now, pollCount = 0, trace = [] \<rparr>
         = Some (expected_exit w ?path (fetch_ended w now ?P n - now) n, s')"
    and pc: "pollCount s' = n"
    and before: "\<forall>i. 1 \<le> i \<and> i < n \<longrightarrow> fetch_ended w now ?P i - now < ?T"
    and last: "\<not> non_terminal w ?path n \<or> ?T \<le> fetch_ended w now ?P n - now"
    by blast
  let ?elapsed = "fetch_ended w now ?P n - now"
  from never have "non_terminal w ?path n" by simp
  then obtain operation where ex: "expected_exit w ?path ?elapsed n = Timeout operation ?elapsed"
    unfolding non_terminal_def expected_exit_def by (auto split: fetch_outcome.splits)
  have late: "?T \<le> ?elapsed" using last never by simp
  let ?out = "timeout_structured operation t ?elapsed n"
  have res: "veo_wait_for_video w now
        \<lparr> operation_name = nm, response_format = fmt,
          poll_interval_seconds = p, timeout_seconds = t \<rparr> = Some (WaitTimeout ?out, trace s')"
    by (simp add: veo_wait_for_video_def run ex pc)
  have cp: "t \<le> ?c * p" using ceil_div_upper [of p t] p by simp
  have cl: "(?c - 1) * p < t" using ceil_div_lower [of p t] p t by simp
  have upper: "n \<le> ?c + 1"
  proof (rule ccontr)
    assume "\<not> n \<le> ?c + 1"
    then have "fetch_ended w now ?P (?c + 1) - now < ?T" using before by simp
    then have "?c * ?P < ?T" by (simp add: fetch_ended_elapsed)
    then show False using cp by simp
  qed
  have lower: "?c - 1 \<le> n" if d: "\<forall>n \<le> ?c. drift w n \<le> 2 * ?P"
  proof (rule ccontr)
    assume "\<not> ?c - 1 \<le> n"
    then have nc: "n + 2 \<le> ?c" by simp
    then have "drift w n \<le> 2 * ?P" using d by simp
    then have "?T \<le> (n - 1) * ?P + 2 * ?P" using late by (simp add: fetch_ended_elapsed)
    also have "\<dots> = (n + 1) * ?P" using n by (cases n) simp_all
    also have "\<dots> \<le> (?c - 1) * ?P" using nc by (intro mult_le_mono1) simp
    finally have "t * 1000 \<le> ((?c - 1) * p) * 1000" by (simp add: mult.assoc)
    then show False using cl by simp
  qed
  have "t_status ?out = ''timeout''" "\<not> t_done ?out" "t_poll_count ?out = n"
    by (simp_all add: timeout_structured_def)
  moreover have "t \<le> t_elapsed_seconds ?out"
    using round_seconds_ge [OF late] by (simp add: timeout_structured_def)
  ultimately show ?thesis
    using res n upper lower by (intro exI [of _ ?out] exI [of _ "trace s'"]) simp
qed

theorem wait_never_completing_times_out_witness:
  "(\<forall>n. non_terminal never_done (wait_operationPath ''abc123'') n)
   \<and> drift never_done 1 = 200 \<and> drift never_done 2 = 400 \<and> drift never_done 3 = 600
   \<and> ceil_div 30 10 = 3
   \<and> veo_wait_for_video never_done 0
        \<lparr> operation_name = ''abc123'', response_format = JSON,
          poll_interval_seconds = 10, timeout_seconds = 30 \<rparr>
      = Some (WaitTimeout
          \<lparr> t_operation_name = ''operations/abc123'', t_status = ''timeout'', t_done = False,
            t_elapsed_seconds = 31, t_poll_count = 4,
            t_message = ''Timed out after 30 seconds. The video may still be generating. Use veo_get_operation_status to check later.'' \<rparr>,
          [FetchEv 1 ''operations/abc123'' 0 200, SleepEv 200 10000 10200,
           FetchEv 2 ''operations/abc123'' 10200 10400, SleepEv 10400 10000 20400,
           FetchEv 3 ''operations/abc123'' 20400 20600, SleepEv 20600 10000 30600,
           FetchEv 4 ''operations/abc123'' 30600 30800])"
proof -
  have never: "\<forall>n. non_terminal never_done (wait_operationPath ''abc123'') n"
    by (simp add: non_terminal_def never_done_def pending_def truthy_done_def truthy_error_def)
  have d: "drift never_done n = (n - 1) * 200 + 200" for n
    by (rule drift_steady) (simp_all add: never_done_def)
  have c: "ceil_div 30 10 = 3" by (simp add: ceil_div_def)
  have "\<forall>n \<le> ceil_div 30 10. drift never_done n \<le> 2 * (10 * 1000)"
    unfolding c d by auto
  with wait_never_completing_times_out [of 10 30 never_done "''abc123''" 0 JSON] never
  obtain out tr where "veo_wait_for_video never_done 0
        \<lparr> operation_name = ''abc123'', response_format = JSON,
          poll_interval_seconds = 10, timeout_seconds = 30 \<rparr> = Some (WaitTimeout out, tr)"
    and "ceil_div 30 10 - 1 \<le> t_poll_count out" "t_poll_count out \<le> ceil_div 30 10 + 1"
    by auto
  moreover have "veo_wait_for_video never_done 0
        \<lparr> operation_name = ''abc123'', response_format = JSON,
          poll_interval_seconds = 10, timeout_seconds = 30 \<rparr>
      = Some (WaitTimeout
          \<lparr> t_operation_name = ''operations/abc123'', t_status = ''timeout'', t_done = False,
            t_elapsed_seconds = 31, t_poll_count = 4,
            t_message = ''Timed out after 30 seconds. The video may still be generating. Use veo_get_operation_status to check later.'' \<rparr>,
          [FetchEv 1 ''operations/abc123'' 0 200, SleepEv 200 10000 10200,
           FetchEv 2 ''operations/abc123'' 10200 10400, SleepEv 10400 10000 20400,
           FetchEv 3 ''operations/abc123'' 20400 20600, SleepEv 20600 10000 30600,
           FetchEv 4 ''operations/abc123'' 30600 30800])"
    by (simp add: Let_def veo_wait_for_video_def poll_loop.simps iteration_def never_done_def
        pending_def truthy_done_def truthy_error_def wait_operationPath_def
        timeout_structured_def round_seconds_def show_nat.simps)
  ultimately show ?thesis using never c by (simp add: d)
qed

text \<open>
  Without the condition on the drift the lower bound fails. With requests of 200 milliseconds,
  a poll interval of 5 seconds and a timeout of 600 seconds, the \<open>n\<close>-th fetch ends
  \<open>5200 n - 5000\<close> milliseconds after the start, so the 117th is the first to end past
  the timeout: the poll count is 117, below \<open>\<lceil>600/5\<rceil> - 1 = 119\<close>.
\<close>

theorem wait_poll_count_below_bound:
  "map_option fst (veo_wait_for_video never_done 0
      \<lparr> operation_name = ''abc123'', response_format = JSON,
        poll_interval_seconds = 5, timeout_seconds = 600 \<rparr>)
   = Some (WaitTimeout
      \<lparr> t_operation_name = ''operations/abc123'', t_status = ''timeout'', t_done = False,
        t_elapsed_seconds = 603, t_poll_count = 117,
        t_message = ''Timed out after 600 seconds. The video may still be generating. Use veo_get_operation_status to check later.'' \<rparr>)
   \<and> ceil_div 600 5 - 1 = 119"
proof -
  have d: "drift never_done n = (n - 1) * 200 + 200" for n
    by (rule drift_steady) (simp_all add: never_done_def)
  have "map_option fst (veo_wait_for_video never_done 0
      \<lparr> operation_name = ''abc123'', response_format = JSON,
        poll_interval_seconds = 5, timeout_seconds = 600 \<rparr>)
     = Some (WaitTimeout (timeout_structured pending 600
          (fetch_ended never_done 0 (5 * 1000) 117 - 0) 117))"
  proof (rule wait_timeout_at)
    show "\<forall>i. 1 \<le> i \<and> i < 117 \<longrightarrow>
        non_terminal never_done (wait_operationPath ''abc123'') i
        \<and> fetch_ended never_done 0 (5 * 1000) i - 0 < 600 * 1000"
      unfolding fetch_ended_elapsed d
      by (auto simp: non_terminal_def never_done_def pending_def truthy_done_def
          truthy_error_def)
    show "600 * 1000 \<le> fetch_ended never_done 0 (5 * 1000) 117 - 0"
      unfolding fetch_ended_elapsed d by simp
  qed (simp_all add: never_done_def pending_def truthy_done_def truthy_error_def)
  moreover have "fetch_ended never_done 0 (5 * 1000) 117 - 0 = 603400"
    unfolding fetch_ended_elapsed d by simp
  ultimately show ?thesis
    by (simp add: timeout_structured_def round_seconds_def pending_def ceil_div_def
        show_nat.simps)
qed

text \<open>
  C2 (amended). For a valid poll interval \<open>p\<close> and timeout \<open>t\<close>, if fetches \<open>1..k-1\<close>
  are non-terminal, the \<open>k\<close>-th fetch yields a snapshot with \<open>done = true\<close> and no
  error, \<open>k p < t\<close>, and the time spent in the fetches and in late timers before the
  \<open>k\<close>-th fetch stays within two poll intervals, then wait returns the completed
  outcome with poll count exactly \<open>k\<close>.
\<close>

theorem wait_completes_at_kth_fetch:
  assumes p: "5 \<le> p" "p \<le> 60" and t: "30 \<le> t" "t \<le> 600"
    and k: "1 \<le> k" "k * p < t"
    and before: "\<forall>i. 1 \<le> i \<and> i < k \<longrightarrow> non_terminal w (wait_operationPath nm) i"
    and kth: "fetch_reply w (wait_operationPath nm) k = Resolves operation"
      "op_done operation = Some True" "op_error operation = None"
    and slack: "\<forall>i. 1 \<le> i \<and> i < k \<longrightarrow> drift w i \<le> 2 * (p * 1000)"
  shows "\<exists>out tr.
      veo_wait_for_video w now
        \<lparr> operation_name = nm, response_format = fmt,
          poll_interval_seconds = p, timeout_seconds = t \<rparr> = Some (WaitFinal out, tr)
      \<and> f_status out = ''completed'' \<and> f_poll_count out = k \<and> f_error out = None"
proof -
  let ?path = "wait_operationPath nm"
  let ?P = "p * 1000" and ?T = "t * 1000"
  have P: "0 < ?P" using p by simp
  from poll_loop_characterised [OF P, of w ?path now ?T]
  obtain n s' where n: "1 \<le> n"
    and run: "poll_loop w ?path now ?T ?P \<lparr> clock = now, pollCount = 0, trace = [] \<rparr>
         = Some (expected_exit w ?path (fetch_ended w now ?P n - now) n, s')"
    and pc: "pollCount s' = n"
    and quiet: "\<forall>i. 1 \<le> i \<and> i < n \<longrightarrow> non_terminal w ?path i"
    and last: "\<not> non_terminal w ?path n \<or> ?T \<le> fetch_ended w now ?P n - now"
    by blast
  have term_k: "\<not> non_terminal w ?path k"
    using kth by (simp add: non_terminal_def truthy_done_def)
  have "\<not> n < k"
  proof
    assume nk: "n < k"
    then have nt: "non_terminal w ?path n" and d: "drift w n \<le> 2 * ?P"
      using before slack n by simp_all
    have "(n - 1) * ?P + 2 * ?P = (n + 1) * ?P" using n by (cases n) simp_all
    also have "\<dots> \<le> k * ?P" using nk by (intro mult_le_mono1) simp
    also have "\<dots> < ?T" using k by simp
    finally have "fetch_ended w now ?P n - now < ?T"
      using d by (simp add: fetch_ended_elapsed)
    then show False using last nt by simp
  qed
  moreover have "\<not> k < n" using quiet k term_k by blast
  ultimately have nk: "n = k" by simp
  have ex: "expected_exit w ?path (fetch_ended w now ?P n - now) n = Break operation"
    using kth by (simp add: nk expected_exit_def truthy_done_def)
  let ?out = "final_structured operation (clock s' - now) k"
  have "veo_wait_for_video w now
        \<lparr> operation_name = nm, response_format = fmt,
          poll_interval_seconds = p, timeout_seconds = t \<rparr> = Some (WaitFinal ?out, trace s')"
    using pc run ex unfolding nk by (simp add: veo_wait_for_video_def)
  moreover have "f_status ?out = ''completed''" "f_poll_count ?out = k" "f_error ?out = None"
    using kth by (simp_all add: final_structured_def truthy_error_def)
  ultimately show ?thesis by blast
qed

theorem wait_completes_at_kth_fetch_witness:
  "non_terminal done_at_3 (wait_operationPath ''abc123'') 1
   \<and> non_terminal done_at_3 (wait_operationPath ''abc123'') 2
   \<and> fetch_reply done_at_3 (wait_operationPath ''abc123'') 3 = Resolves finished
   \<and> op_done finished = Some True \<and> op_error finished = None
   \<and> drift done_at_3 1 = 200 \<and> drift done_at_3 2 = 400
   \<and> veo_wait_for_video done_at_3 0
        \<lparr> operation_name = ''abc123'', response_format = JSON,
          poll_interval_seconds = 5, timeout_seconds = 30 \<rparr>
      = Some (WaitFinal
          \<lparr> f_operation_name = ''operations/abc123'', f_status = ''completed'', f_done = True,
            f_elapsed_seconds = 11, f_poll_count = 3, f_error = None,
            f_video_urls = [''uri1''] \<rparr>,
          [FetchEv 1 ''operations/abc123'' 0 200, SleepEv 200 5000 5200,
           FetchEv 2 ''operations/abc123'' 5200 5400, SleepEv 5400 5000 10400,
           FetchEv 3 ''operations/abc123'' 10400 10600])"
proof -
  have d: "drift done_at_3 n = (n - 1) * 200 + 200" for n
    by (rule drift_steady) (simp_all add: done_at_3_def)
  have before: "\<forall>i. 1 \<le> i \<and> i < 3 \<longrightarrow> non_terminal done_at_3 (wait_operationPath ''abc123'') i"
    by (simp add: non_terminal_def done_at_3_def pending_def truthy_done_def truthy_error_def)
  have slack: "\<forall>i. 1 \<le> i \<and> i < 3 \<longrightarrow> drift done_at_3 i \<le> 2 * (5 * 1000)"
    unfolding d by auto
  have kth: "fetch_reply done_at_3 (wait_operationPath ''abc123'') 3 = Resolves finished"
    "op_done finished = Some True" "op_error finished = None"
    by (simp_all add: done_at_3_def finished_def)
  from wait_completes_at_kth_fetch [of 5 30 3 done_at_3 "''abc123''" finished 0 JSON,
      OF _ _ _ _ _ _ before kth slack]
  obtain out tr where "veo_wait_for_video done_at_3 0
        \<lparr> operation_name = ''abc123'', response_format = JSON,
          poll_interval_seconds = 5, timeout_seconds = 30 \<rparr> = Some (WaitFinal out, tr)"
    and "f_poll_count out = 3"
    by auto
  moreover have "veo_wait_for_video done_at_3 0
        \<lparr> operation_name = ''abc123'', response_format = JSON,
          poll_interval_seconds = 5, timeout_seconds = 30 \<rparr>
      = Some (WaitFinal
          \<lparr> f_operation_name = ''operations/abc123'', f_status = ''completed'', f_done = True,
            f_elapsed_seconds = 11, f_poll_count = 3, f_error = None,
            f_video_urls = [''uri1''] \<rparr>,
          [FetchEv 1 ''operations/abc123'' 0 200, SleepEv 200 5000 5200,
           FetchEv 2 ''operations/abc123'' 5200 5400, SleepEv 5400 5000 10400,
           FetchEv 3 ''operations/abc123'' 10400 10600])"
    by (simp add: Let_def veo_wait_for_video_def poll_loop.simps iteration_def done_at_3_def
        pending_def finished_def truthy_done_def truthy_error_def wait_operationPath_def
        final_structured_def round_seconds_def nullish_def optional_video_urls_def
        optional_samples_def)
  ultimately show ?thesis using before kth by (simp add: d)
qed

text \<open>
  Without the two added conditions the property fails. With requests of 200 milliseconds, a poll
  interval of 5 seconds and a timeout of 600 seconds, an operation that is done at its
  119th fetch (\<open>119 \<times> 5 < 600\<close>) is never seen done: the 117th fetch ends past the
  timeout. And a snapshot with \<open>done = true\<close> that also carries an error, at the first
  fetch, gives the failed outcome.
\<close>

theorem wait_misses_completion:
  "map_option fst (veo_wait_for_video done_at_119 0
      \<lparr> operation_name = ''abc123'', response_format = JSON,
        poll_interval_seconds = 5, timeout_seconds = 600 \<rparr>)
   = Some (WaitTimeout
      \<lparr> t_operation_name = ''operations/abc123'', t_status = ''timeout'', t_done = False,
        t_elapsed_seconds = 603, t_poll_count = 117,
        t_message = ''Timed out after 600 seconds. The video may still be generating. Use veo_get_operation_status to check later.'' \<rparr>)
   \<and> fetch_reply done_at_119 (wait_operationPath ''abc123'') 119 = Resolves finished
   \<and> op_done finished = Some True
   \<and> veo_wait_for_video fails_at_once 0
        \<lparr> operation_name = ''abc123'', response_format = JSON,
          poll_interval_seconds = 5, timeout_seconds = 30 \<rparr>
      = Some (WaitFinal
          \<lparr> f_operation_name = ''operations/abc123'', f_status = ''failed'', f_done = True,
            f_elapsed_seconds = 0, f_poll_count = 1,
            f_error = Some \<lparr> code = 13, message = ''internal'' \<rparr>, f_video_urls = [] \<rparr>,
          [FetchEv 1 ''operations/abc123'' 0 200])
   \<and> fetch_reply fails_at_once (wait_operationPath ''abc123'') 1 = Resolves done_with_error
   \<and> op_done done_with_error = Some True"
proof -
  have d: "drift done_at_119 n = (n - 1) * 200 + 200" for n
    by (rule drift_steady) (simp_all add: done_at_119_def)
  have "map_option fst (veo_wait_for_video done_at_119 0
      \<lparr> operation_name = ''abc123'', response_format = JSON,
        poll_interval_seconds = 5, timeout_seconds = 600 \<rparr>)
     = Some (WaitTimeout (timeout_structured pending 600
          (fetch_ended done_at_119 0 (5 * 1000) 117 - 0) 117))"
  proof (rule wait_timeout_at)
    show "\<forall>i. 1 \<le> i \<and> i < 117 \<longrightarrow>
        non_terminal done_at_119 (wait_operationPath ''abc123'') i
        \<and> fetch_ended done_at_119 0 (5 * 1000) i - 0 < 600 * 1000"
      unfolding fetch_ended_elapsed d
      by (auto simp: non_terminal_def done_at_119_def pending_def truthy_done_def
          truthy_error_def)
    show "600 * 1000 \<le> fetch_ended done_at_119 0 (5 * 1000) 117 - 0"
      unfolding fetch_ended_elapsed d by simp
  qed (simp_all add: done_at_119_def pending_def truthy_done_def truthy_error_def)
  moreover have "fetch_ended done_at_119 0 (5 * 1000) 117 - 0 = 603400"
    unfolding fetch_ended_elapsed d by simp
  ultimately have a: "map_option fst (veo_wait_for_video done_at_119 0
      \<lparr> operation_name = ''abc123'', response_format = JSON,
        poll_interval_seconds = 5, timeout_seconds = 600 \<rparr>)
   = Some (WaitTimeout
      \<lparr> t_operation_name = ''operations/abc123'', t_status = ''timeout'', t_done = False,
        t_elapsed_seconds = 603, t_poll_count = 117,
        t_message = ''Timed out after 600 seconds. The video may still be generating. Use veo_get_operation_status to check later.'' \<rparr>)"
    by (simp add: timeout_structured_def round_seconds_def pending_def show_nat.simps)
  have b: "veo_wait_for_video fails_at_once 0
        \<lparr> operation_name = ''abc123'', response_format = JSON,
          poll_interval_seconds = 5, timeout_seconds = 30 \<rparr>
      = Some (WaitFinal
          \<lparr> f_operation_name = ''operations/abc123'', f_status = ''failed'', f_done = True,
            f_elapsed_seconds = 0, f_poll_count = 1,
            f_error = Some \<lparr> code = 13, message = ''internal'' \<rparr>, f_video_urls = [] \<rparr>,
          [FetchEv 1 ''operations/abc123'' 0 200])"
    by (simp add: Let_def veo_wait_for_video_def poll_loop.simps iteration_def fails_at_once_def
        done_with_error_def truthy_done_def truthy_error_def wait_operationPath_def
        final_structured_def round_seconds_def nullish_def optional_video_urls_def
        optional_samples_def)
  show ?thesis
    using a b by (simp add: done_at_119_def fails_at_once_def done_with_error_def finished_def)
qed

section \<open>Classification and artifacts\<close>

text \<open>The status handler returns the structured output of the snapshot it fetched.\<close>

lemma status_handler_result:
  assumes "fetch_reply w (status_operationPath (operation_name params)) 1 = Resolves operation"
  shows "veo_get_operation_status w now params
     = (StatusOk (status_structured operation),
        [FetchEv 1 (status_operationPath (operation_name params)) now (now + fetch_ms w 1)])"
  using assms by (simp add: veo_get_operation_status_def)

text \<open>
  C5 (amended). Every snapshot gets exactly one of the three statuses: \<open>in_progress\<close>
  iff \<open>done\<close> is not true and there is no error, \<open>completed\<close> iff \<open>done = true\<close> and
  there is no error (whether or not an artifact list is present), \<open>failed\<close> iff an
  error is present, whatever the done flag; a snapshot with \<open>done = true\<close> and an
  error is failed. The handler and \<^verbatim>\<open>formatOperationStatus\<close> classify alike.
\<close>

theorem classification_partition:
  "s_status (status_structured operation) \<in> {''in_progress'', ''completed'', ''failed''}
   \<and> (s_status (status_structured operation) = ''in_progress''
        \<longleftrightarrow> op_done operation \<noteq> Some True \<and> op_error operation = None)
   \<and> (s_status (status_structured operation) = ''completed''
        \<longleftrightarrow> op_done operation = Some True \<and> op_error operation = None)
   \<and> (s_status (status_structured operation) = ''failed''
        \<longleftrightarrow> op_error operation \<noteq> None)
   \<and> s_status (status_structured (operation \<lparr> op_done := Some True, op_error := Some err \<rparr>))
        = ''failed''
   \<and> s_status (formatOperationStatus_json operation) = s_status (status_structured operation)"
  by (simp add: status_structured_def formatOperationStatus_json_def truthy_done_def
      truthy_error_def)

text \<open>
  An artifact list is not needed for \<open>completed\<close>: a snapshot that is done, has no
  error and has no response is classified completed.
\<close>

theorem completed_without_artifacts:
  "s_status (status_structured done_without_response) = ''completed''
   \<and> s_status (formatOperationStatus_json done_without_response) = ''completed''
   \<and> op_done done_without_response = Some True
   \<and> op_error done_without_response = None
   \<and> op_response done_without_response = None
   \<and> optional_video_urls done_without_response = None"
  by (simp add: status_structured_def formatOperationStatus_json_def truthy_done_def
      truthy_error_def done_without_response_def optional_video_urls_def optional_samples_def)

text \<open>
  The \<^verbatim>\<open>video_urls\<close> that the output builders compute from a snapshot: the video
  URIs of the generated samples when they are present, and the empty list when the
  response, the \<^verbatim>\<open>generateVideoResponse\<close> or the sample list is absent.
\<close>

lemma video_urls_structured:
  "s_video_urls (status_structured operation) = video_uris operation
   \<and> f_video_urls (final_structured operation elapsed n) = video_uris operation
   \<and> s_video_urls (formatOperationStatus_json operation) = video_uris operation
   \<and> video_uris (operation \<lparr> op_response := None \<rparr>) = []
   \<and> video_uris (operation \<lparr> op_response := Some \<lparr> generateVideoResponse = None \<rparr> \<rparr>) = []
   \<and> video_uris (operation \<lparr> op_response :=
         Some \<lparr> generateVideoResponse = Some \<lparr> generatedSamples = None \<rparr> \<rparr> \<rparr>) = []
   \<and> video_uris (operation \<lparr> op_response :=
         Some \<lparr> generateVideoResponse = Some \<lparr> generatedSamples = Some samples \<rparr> \<rparr> \<rparr>)
       = map (\<lambda>s. uri (video s)) samples"
  by (simp add: status_structured_def final_structured_def formatOperationStatus_json_def
      video_uris_def nullish_def optional_video_urls_def optional_samples_def
      split: option.splits)

section \<open>The trace of a wait call\<close>

lemma fetch_spans_append: "fetch_spans (xs @ ys) = fetch_spans xs @ fetch_spans ys"
  by (induction xs rule: fetch_spans.induct) simp_all

lemma sleeps_before_deadline_append:
  "sleeps_before_deadline st T P (xs @ ys)
   = (sleeps_before_deadline st T P xs \<and> sleeps_before_deadline st T P ys)"
  by (induction st T P xs rule: sleeps_before_deadline.induct) simp_all

lemma spaced_snoc:
  "spaced P (xs @ [(b, e)])
   = (spaced P xs \<and> (xs \<noteq> [] \<longrightarrow> snd (last xs) \<le> b \<and> fst (last xs) + P \<le> b))"
  by (induction P xs rule: spaced.induct) auto

lemma paced_step:
  assumes "paced st T P s" and "iteration w path st T P s = Inr s'"
  shows "paced st T P s'"
proof -
  from iteration_Inr [OF assms(2)] obtain ended where
    e: "ended = clock s + fetch_ms w (pollCount s + 1)" "ended - st < T"
    and s': "s' = \<lparr> clock = ended + P + timer_late_ms w (pollCount s + 1),
              pollCount = pollCount s + 1,
              trace = trace s @ [FetchEv (pollCount s + 1) path (clock s) ended,
                 SleepEv ended P (ended + P + timer_late_ms w (pollCount s + 1))] \<rparr>"
    by blast
  show ?thesis
    using assms(1) e unfolding paced_def s'
    by (simp add: fetch_spans_append sleeps_before_deadline_append spaced_snoc)
qed

lemma paced_exit:
  assumes "paced st T P s" and "iteration w path st T P s = Inl (r, s')"
  shows "spaced P (fetch_spans (trace s'))" and "sleeps_before_deadline st T P (trace s')"
proof -
  from iteration_Inl [OF assms(2)] obtain ended where
    s': "s' = \<lparr> clock = ended, pollCount = pollCount s + 1,
              trace = trace s @ [FetchEv (pollCount s + 1) path (clock s) ended] \<rparr>"
    by blast
  show "spaced P (fetch_spans (trace s'))" "sleeps_before_deadline st T P (trace s')"
    using assms(1) unfolding paced_def s'
    by (simp_all add: fetch_spans_append sleeps_before_deadline_append spaced_snoc)
qed

lemma logged_step:
  assumes "logged w path s" and "iteration w path st T P s = Inr s'"
  shows "logged w path s'"
proof -
  from iteration_Inr [OF assms(2)] obtain ended where
    nt: "non_terminal w path (pollCount s + 1)"
    and s': "s' = \<lparr> clock = ended + P + timer_late_ms w (pollCount s + 1),
              pollCount = pollCount s + 1,
              trace = trace s @ [FetchEv (pollCount s + 1) path (clock s) ended,
                 SleepEv ended P (ended + P + timer_late_ms w (pollCount s + 1))] \<rparr>"
    by blast
  from nt have "\<exists>operation. fetch_reply w path (pollCount s + 1) = Resolves operation"
    unfolding non_terminal_def by (auto split: fetch_outcome.splits)
  then show ?thesis
    using assms(1) unfolding logged_def s'
    by (auto simp: fetch_spans_append)
qed

text \<open>The result of the handler, from the way the loop is left.\<close>

lemma wait_result:
  assumes "poll_loop w (wait_operationPath (operation_name params)) now
      (timeout_seconds params * 1000) (poll_interval_seconds params * 1000)
      \<lparr> clock = now, pollCount = 0, trace = [] \<rparr> = Some (r, s')"
  shows "veo_wait_for_video w now params =
     Some (case r of
             Throw e \<Rightarrow> WaitError (handleApiError e)
           | Timeout operation elapsed \<Rightarrow>
               WaitTimeout (timeout_structured operation (timeout_seconds params) elapsed
                 (pollCount s'))
           | Break operation \<Rightarrow>
               WaitFinal (final_structured operation (clock s' - now) (pollCount s')),
           trace s')"
  using assms by (simp add: veo_wait_for_video_def split: loop_exit.splits)

text \<open>
  C7. A wait call with a positive poll interval returns; and if a fetch of the call
  was rejected with an error, the result is the structured error result made from
  that error, the rejected fetch is the last event of the call (no retry, no further
  poll, no sleep), and it was the only request made for that poll.
\<close>

theorem wait_fetch_error_ends_call:
  assumes "0 < poll_interval_seconds params"
  shows "\<exists>res tr. veo_wait_for_video w now params = Some (res, tr)
     \<and> (\<forall>n path b e err.
          FetchEv n path b e \<in> set tr \<and> fetch_reply w path n = Rejects err \<longrightarrow>
            res = WaitError (handleApiError err)
            \<and> last tr = FetchEv n path b e
            \<and> length (fetch_spans tr) = n)"
proof -
  let ?path = "wait_operationPath (operation_name params)"
  let ?T = "timeout_seconds params * 1000" and ?P = "poll_interval_seconds params * 1000"
  let ?s = "\<lparr> clock = now, pollCount = 0, trace = [] \<rparr>"
  have "logged w ?path ?s" by (simp add: logged_def)
  then have "\<exists>r s0. poll_loop w ?path now ?T ?P ?s = Some r
      \<and> logged w ?path s0 \<and> iteration w ?path now ?T ?P s0 = Inl r"
    using assms logged_step by (intro poll_loop_rule) auto
  then obtain r s0 where run: "poll_loop w ?path now ?T ?P ?s = Some r"
    and inv: "logged w ?path s0"
    and ex: "iteration w ?path now ?T ?P s0 = Inl r"
    by blast
  obtain x s' where r: "r = (x, s')" by (cases r)
  let ?n = "pollCount s0 + 1"
  from iteration_Inl [OF ex [unfolded r]] obtain ended where
    x: "x = expected_exit w ?path (ended - now) ?n"
    and s': "s' = \<lparr> clock = ended, pollCount = ?n,
              trace = trace s0 @ [FetchEv ?n ?path (clock s0) ended] \<rparr>"
    by blast
  let ?res = "case x of
             Throw e \<Rightarrow> WaitError (handleApiError e)
           | Timeout operation elapsed \<Rightarrow>
               WaitTimeout (timeout_structured operation (timeout_seconds params) elapsed
                 (pollCount s'))
           | Break operation \<Rightarrow>
               WaitFinal (final_structured operation (clock s' - now) (pollCount s'))"
  have res: "veo_wait_for_video w now params = Some (?res, trace s')"
    using wait_result [OF run [unfolded r]] .
  have "?res = WaitError (handleApiError err) \<and> last (trace s') = FetchEv n path b e
      \<and> length (fetch_spans (trace s')) = n"
    if ev: "FetchEv n path b e \<in> set (trace s')" and rej: "fetch_reply w path n = Rejects err"
    for n path b e err
  proof -
    have "FetchEv n path b e \<notin> set (trace s0)"
      using inv rej unfolding logged_def by fastforce
    then have here: "n = ?n" "path = ?path" "b = clock s0" "e = ended"
      using ev unfolding s' by auto
    then have "x = Throw err" using x rej by (simp add: expected_exit_def)
    moreover have "length (fetch_spans (trace s')) = ?n"
      using inv unfolding s' logged_def by (simp add: fetch_spans_append)
    ultimately show ?thesis using here unfolding s' by simp
  qed
  then show ?thesis using res by blast
qed

theorem wait_fetch_error_ends_call_witness:
  "veo_wait_for_video not_found_at_2 0
      \<lparr> operation_name = ''abc123'', response_format = MARKDOWN,
        poll_interval_seconds = 5, timeout_seconds = 30 \<rparr>
   = Some (WaitError ''Error: Resource not found. Operation not found. Check the operation name or model ID.'',
       [FetchEv 1 ''operations/abc123'' 0 200, SleepEv 200 5000 5200,
        FetchEv 2 ''operations/abc123'' 5200 5400])
   \<and> fetch_reply not_found_at_2 ''operations/abc123'' 2
      = Rejects (AxiosError
          (Some \<lparr> http_status = 404, data_error_message = Some ''Operation not found'' \<rparr>)
          (Some ''ERR_BAD_REQUEST'') ''Request failed with status code 404'')
   \<and> length (fetch_spans [FetchEv 1 ''operations/abc123'' 0 200, SleepEv 200 5000 5200,
        FetchEv 2 ''operations/abc123'' 5200 5400]) = 2"
proof -
  let ?params = "\<lparr> operation_name = ''abc123'', response_format = MARKDOWN,
        poll_interval_seconds = 5, timeout_seconds = 30 \<rparr>"
  let ?tr = "[FetchEv 1 ''operations/abc123'' 0 200, SleepEv 200 5000 5200,
        FetchEv 2 ''operations/abc123'' 5200 5400]"
  let ?err = "AxiosError
          (Some \<lparr> http_status = 404, data_error_message = Some ''Operation not found'' \<rparr>)
          (Some ''ERR_BAD_REQUEST'') ''Request failed with status code 404''"
  have run: "veo_wait_for_video not_found_at_2 0 ?params
     = Some (WaitError ''Error: Resource not found. Operation not found. Check the operation name or model ID.'', ?tr)"
    by (simp add: Let_def veo_wait_for_video_def poll_loop.simps iteration_def
        not_found_at_2_def pending_def truthy_done_def truthy_error_def
        wait_operationPath_def)
  have rej: "fetch_reply not_found_at_2 ''operations/abc123'' 2 = Rejects ?err"
    by (simp add: not_found_at_2_def)
  have pos: "0 < poll_interval_seconds ?params" by simp
  from wait_fetch_error_ends_call [OF pos, of not_found_at_2 0]
  obtain res tr where a: "veo_wait_for_video not_found_at_2 0 ?params = Some (res, tr)"
    and b: "\<And>n path b e err.
          FetchEv n path b e \<in> set tr \<Longrightarrow> fetch_reply not_found_at_2 path n = Rejects err \<Longrightarrow>
            res = WaitError (handleApiError err)
            \<and> last tr = FetchEv n path b e
            \<and> length (fetch_spans tr) = n"
    by blast
  have tr: "tr = ?tr" using a run by simp
  have "FetchEv 2 ''operations/abc123'' 5200 5400 \<in> set tr" unfolding tr by simp
  from b [OF this rej] have "length (fetch_spans ?tr) = 2" unfolding tr by blast
  then show ?thesis using run rej by blast
qed

text \<open>
  C9. In a wait call with a positive poll interval, fetches are sequential: each one
  begins after the one before it has ended, and at least a poll interval after the one
  before it began. Every sleep begins while the elapsed time is below the timeout:
  once the elapsed time has reached the timeout, the call returns without sleeping.
\<close>

theorem wait_fetches_sequential_and_spaced:
  assumes "0 < poll_interval_seconds params"
  shows "\<exists>res tr. veo_wait_for_video w now params = Some (res, tr)
     \<and> spaced (poll_interval_seconds params * 1000) (fetch_spans tr)
     \<and> sleeps_before_deadline now (timeout_seconds params * 1000)
          (poll_interval_seconds params * 1000) tr"
proof -
  let ?path = "wait_operationPath (operation_name params)"
  let ?T = "timeout_seconds params * 1000" and ?P = "poll_interval_seconds params * 1000"
  let ?s = "\<lparr> clock = now, pollCount = 0, trace = [] \<rparr>"
  have "paced now ?T ?P ?s" by (simp add: paced_def)
  then have "\<exists>r s0. poll_loop w ?path now ?T ?P ?s = Some r
      \<and> paced now ?T ?P s0 \<and> iteration w ?path now ?T ?P s0 = Inl r"
    using assms paced_step by (intro poll_loop_rule) auto
  then obtain r s0 where run: "poll_loop w ?path now ?T ?P ?s = Some r"
    and inv: "paced now ?T ?P s0"
    and ex: "iteration w ?path now ?T ?P s0 = Inl r"
    by blast
  obtain x s' where r: "r = (x, s')" by (cases r)
  show ?thesis
    using wait_result [OF run [unfolded r]] paced_exit [OF inv ex [unfolded r]] by blast
qed

theorem wait_fetches_sequential_and_spaced_witness:
  "veo_wait_for_video never_done 0
        \<lparr> operation_name = ''abc123'', response_format = MARKDOWN,
          poll_interval_seconds = 10, timeout_seconds = 30 \<rparr>
      = Some (WaitTimeout
          \<lparr> t_operation_name = ''operations/abc123'', t_status = ''timeout'', t_done = False,
            t_elapsed_seconds = 31, t_poll_count = 4,
            t_message = ''Timed out after 30 seconds. The video may still be generating. Use veo_get_operation_status to check later.'' \<rparr>,
          [FetchEv 1 ''operations/abc123'' 0 200, SleepEv 200 10000 10200,
           FetchEv 2 ''operations/abc123'' 10200 10400, SleepEv 10400 10000 20400,
           FetchEv 3 ''operations/abc123'' 20400 20600, SleepEv 20600 10000 30600,
           FetchEv 4 ''operations/abc123'' 30600 30800])
   \<and> spaced 10000 [(0, 200), (10200, 10400), (20400, 20600), (30600, 30800)]
   \<and> sleeps_before_deadline 0 30000 10000
        [FetchEv 1 ''operations/abc123'' 0 200, SleepEv 200 10000 10200,
         FetchEv 2 ''operations/abc123'' 10200 10400, SleepEv 10400 10000 20400,
         FetchEv 3 ''operations/abc123'' 20400 20600, SleepEv 20600 10000 30600,
         FetchEv 4 ''operations/abc123'' 30600 30800]"
  using wait_fetches_sequential_and_spaced
    [of "\<lparr> operation_name = ''abc123'', response_format = MARKDOWN,
        poll_interval_seconds = 10, timeout_seconds = 30 \<rparr>" never_done 0]
  by (simp add: Let_def veo_wait_for_video_def poll_loop.simps iteration_def never_done_def
      pending_def truthy_done_def truthy_error_def wait_operationPath_def
      timeout_structured_def round_seconds_def show_nat.simps)

text \<open>
  C10. When a wait call returns the outcome built after the loop (neither timeout nor
  error result), that outcome reports \<open>done = true\<close>. It is built from the snapshot
  of the last fetch, which had \<open>done = true\<close> or carried an error; when it carried an
  error without a done flag, the reported \<open>done\<close> differs from the snapshot's.
\<close>

theorem wait_final_reports_done:
  assumes "0 < poll_interval_seconds params"
    and "veo_wait_for_video w now params = Some (WaitFinal out, tr)"
  shows "f_done out
     \<and> (\<exists>operation.
          fetch_reply w (wait_operationPath (operation_name params)) (f_poll_count out)
            = Resolves operation
          \<and> (op_done operation = Some True \<or> op_error operation \<noteq> None)
          \<and> f_error out = op_error operation
          \<and> f_status out = (if op_error operation \<noteq> None then ''failed'' else ''completed''))"
proof -
  let ?path = "wait_operationPath (operation_name params)"
  let ?T = "timeout_seconds params * 1000" and ?P = "poll_interval_seconds params * 1000"
  let ?s = "\<lparr> clock = now, pollCount = 0, trace = [] \<rparr>"
  have "\<exists>r s0. poll_loop w ?path now ?T ?P ?s = Some r
      \<and> True \<and> iteration w ?path now ?T ?P s0 = Inl r"
    using assms(1) by (intro poll_loop_rule) auto
  then obtain r s0 where run: "poll_loop w ?path now ?T ?P ?s = Some r"
    and ex: "iteration w ?path now ?T ?P s0 = Inl r"
    by blast
  obtain x s' where r: "r = (x, s')" by (cases r)
  from iteration_Inl [OF ex [unfolded r]] obtain ended where
    x: "x = expected_exit w ?path (ended - now) (pollCount s0 + 1)"
    and pc: "pollCount s' = pollCount s0 + 1"
    by auto
  from wait_result [OF run [unfolded r]] assms(2)
  obtain operation where b: "x = Break operation"
    and out: "out = final_structured operation (clock s' - now) (pollCount s')"
    by (auto split: loop_exit.splits)
  from x b have "fetch_reply w ?path (pollCount s0 + 1) = Resolves operation"
    and "truthy_done operation \<or> truthy_error operation"
    unfolding expected_exit_def by (auto split: fetch_outcome.splits if_splits)
  then show ?thesis
    unfolding out pc by (auto simp: final_structured_def truthy_done_def truthy_error_def)
qed

theorem wait_final_reports_done_witness:
  "veo_wait_for_video denied_at_once 0
      \<lparr> operation_name = ''abc123'', response_format = JSON,
        poll_interval_seconds = 5, timeout_seconds = 30 \<rparr>
   = Some (WaitFinal
       \<lparr> f_operation_name = ''operations/abc123'', f_status = ''failed'', f_done = True,
         f_elapsed_seconds = 0, f_poll_count = 1,
         f_error = Some \<lparr> code = 7, message = ''denied'' \<rparr>, f_video_urls = [] \<rparr>,
       [FetchEv 1 ''operations/abc123'' 0 200])
   \<and> fetch_reply denied_at_once ''operations/abc123'' 1 = Resolves denied
   \<and> op_done denied = None
   \<and> s_done (status_structured denied) = False"
proof -
  have run: "veo_wait_for_video denied_at_once 0
      \<lparr> operation_name = ''abc123'', response_format = JSON,
        poll_interval_seconds = 5, timeout_seconds = 30 \<rparr>
   = Some (WaitFinal
       \<lparr> f_operation_name = ''operations/abc123'', f_status = ''failed'', f_done = True,
         f_elapsed_seconds = 0, f_poll_count = 1,
         f_error = Some \<lparr> code = 7, message = ''denied'' \<rparr>, f_video_urls = [] \<rparr>,
       [FetchEv 1 ''operations/abc123'' 0 200])"
    by (simp add: Let_def veo_wait_for_video_def poll_loop.simps iteration_def
        denied_at_once_def denied_def truthy_done_def truthy_error_def wait_operationPath_def
        final_structured_def round_seconds_def nullish_def optional_video_urls_def
        optional_samples_def)
  from wait_final_reports_done [OF _ run] show ?thesis
    using run by (simp add: denied_at_once_def denied_def status_structured_def nullish_def)
qed

section \<open>Validation\<close>

lemma z_int_range_reject:
  "\<not> integer_within lo hi v \<Longrightarrow>
   \<exists>issues. issues \<noteq> [] \<and> z_int_range key lo hi d (Some v) = Inl issues"
  by (cases v) (auto simp: z_int_range_def integer_within_def Let_def)

lemma z_int_range_accept:
  assumes "0 \<le> lo" and "integer_within lo hi v"
  shows "\<exists>n. z_int_range key lo hi d (Some v) = Inr n \<and> v = JNumber (of_nat n)
     \<and> lo \<le> int n \<and> int n \<le> hi"
proof -
  from assms(2) obtain r where v: "v = JNumber r" and i: "of_int \<lfloor>r\<rfloor> = r"
    and lo: "of_int lo \<le> r" and hi: "r \<le> of_int hi"
    by (cases v) (auto simp: integer_within_def is_integer_def)
  have l: "lo \<le> \<lfloor>r\<rfloor>" using lo by (simp add: le_floor_iff)
  have h: "\<lfloor>r\<rfloor> \<le> hi" using hi i by (metis of_int_le_iff)
  have "0 \<le> \<lfloor>r\<rfloor>" using l assms(1) by linarith
  then have n: "int (nat \<lfloor>r\<rfloor>) = \<lfloor>r\<rfloor>" by (rule nat_0_le)
  have "rat_of_nat (nat \<lfloor>r\<rfloor>) = of_int (int (nat \<lfloor>r\<rfloor>))" by simp
  then have "rat_of_nat (nat \<lfloor>r\<rfloor>) = r" unfolding n i .
  moreover have "z_int_range key lo hi d (Some v) = Inr (nat \<lfloor>r\<rfloor>)"
    using i lo hi by (simp add: z_int_range_def v is_integer_def Let_def)
  ultimately have "z_int_range key lo hi d (Some v) = Inr (nat \<lfloor>r\<rfloor>)
      \<and> v = JNumber (of_nat (nat \<lfloor>r\<rfloor>))"
    using v by simp
  moreover have "lo \<le> int (nat \<lfloor>r\<rfloor>)" "int (nat \<lfloor>r\<rfloor>) \<le> hi"
    unfolding n using l h by simp_all
  ultimately show ?thesis by blast
qed

lemma fraction_not_integer: "\<not> is_integer (91 / 2)"
proof -
  have "\<lfloor>91 / 2 :: rat\<rfloor> = 45" by (rule floor_unique) simp_all
  then show ?thesis by (simp add: is_integer_def)
qed

lemma schema_rejects:
  assumes "issues \<noteq> []"
    and "z_int_range ''poll_interval_seconds'' 5 60 10 (arg_poll_interval_seconds raw) = Inl issues
       \<or> z_int_range ''timeout_seconds'' 30 600 300 (arg_timeout_seconds raw) = Inl issues"
  shows "\<exists>all. all \<noteq> [] \<and> WaitForVideoInputSchema raw = Inl all"
  using assms
  by (auto simp: WaitForVideoInputSchema_def Let_def issues_of_def
      split: sum.splits list.splits)

lemma wait_returns:
  assumes "0 < poll_interval_seconds params"
  shows "\<exists>res tr. veo_wait_for_video w now params = Some (res, tr) \<and> tr \<noteq> []"
proof -
  let ?path = "wait_operationPath (operation_name params)"
  let ?T = "timeout_seconds params * 1000" and ?P = "poll_interval_seconds params * 1000"
  let ?s = "\<lparr> clock = now, pollCount = 0, trace = [] \<rparr>"
  have "\<exists>r s0. poll_loop w ?path now ?T ?P ?s = Some r
      \<and> True \<and> iteration w ?path now ?T ?P s0 = Inl r"
    using assms by (intro poll_loop_rule) auto
  then obtain r s0 where run: "poll_loop w ?path now ?T ?P ?s = Some r"
    and ex: "iteration w ?path now ?T ?P s0 = Inl r"
    by blast
  obtain x s' where r: "r = (x, s')" by (cases r)
  from iteration_Inl [OF ex [unfolded r]] have "trace s' \<noteq> []" by auto
  then show ?thesis using wait_result [OF run [unfolded r]] by blast
qed

text \<open>
  C8. If \<^verbatim>\<open>poll_interval_seconds\<close> is given and is not a whole number in \<open>[5, 60]\<close>,
  or \<^verbatim>\<open>timeout_seconds\<close> is given and is not a whole number in \<open>[30, 600]\<close>, the call
  is rejected with a non-empty list of validation issues and no request is made. If
  both are absent or whole numbers within their bounds, and the other arguments are
  well-formed, validation passes with those values (10 and 300 when absent), the
  handler runs on them, and it makes at least one request.
\<close>

theorem wait_input_bounds_enforced:
  "((\<exists>v. arg_poll_interval_seconds raw = Some v \<and> \<not> integer_within 5 60 v)
      \<or> (\<exists>v. arg_timeout_seconds raw = Some v \<and> \<not> integer_within 30 600 v)
     \<longrightarrow> (\<exists>issues. issues \<noteq> []
            \<and> call_veo_wait_for_video w now raw = Some (InvalidParams issues, [])))
   \<and> ((\<exists>nm. arg_operation_name raw = Some (JString nm) \<and> nm \<noteq> [])
       \<and> arg_response_format raw \<in> {None, Some (JString ''markdown''), Some (JString ''json'')}
       \<and> arg_other_keys raw = []
       \<and> (\<forall>v. arg_poll_interval_seconds raw = Some v \<longrightarrow> integer_within 5 60 v)
       \<and> (\<forall>v. arg_timeout_seconds raw = Some v \<longrightarrow> integer_within 30 600 v)
     \<longrightarrow> (\<exists>params res tr. WaitForVideoInputSchema raw = Inr params
            \<and> arg_poll_interval_seconds raw
                \<in> {None, Some (JNumber (of_nat (poll_interval_seconds params)))}
            \<and> (arg_poll_interval_seconds raw = None \<longrightarrow> poll_interval_seconds params = 10)
            \<and> 5 \<le> poll_interval_seconds params \<and> poll_interval_seconds params \<le> 60
            \<and> arg_timeout_seconds raw
                \<in> {None, Some (JNumber (of_nat (timeout_seconds params)))}
            \<and> (arg_timeout_seconds raw = None \<longrightarrow> timeout_seconds params = 300)
            \<and> 30 \<le> timeout_seconds params \<and> timeout_seconds params \<le> 600
            \<and> veo_wait_for_video w now params = Some (res, tr)
            \<and> call_veo_wait_for_video w now raw = Some (Handled res, tr)
            \<and> tr \<noteq> []))"
proof (intro conjI impI)
  assume "(\<exists>v. arg_poll_interval_seconds raw = Some v \<and> \<not> integer_within 5 60 v)
      \<or> (\<exists>v. arg_timeout_seconds raw = Some v \<and> \<not> integer_within 30 600 v)"
  then obtain issues where "issues \<noteq> []"
    "z_int_range ''poll_interval_seconds'' 5 60 10 (arg_poll_interval_seconds raw) = Inl issues
       \<or> z_int_range ''timeout_seconds'' 30 600 300 (arg_timeout_seconds raw) = Inl issues"
    using z_int_range_reject by metis
  from schema_rejects [OF this] obtain all where "all \<noteq> []"
    "WaitForVideoInputSchema raw = Inl all"
    by blast
  then show "\<exists>issues. issues \<noteq> []
            \<and> call_veo_wait_for_video w now raw = Some (InvalidParams issues, [])"
    by (simp add: call_veo_wait_for_video_def)
next
  assume ok: "(\<exists>nm. arg_operation_name raw = Some (JString nm) \<and> nm \<noteq> [])
       \<and> arg_response_format raw \<in> {None, Some (JString ''markdown''), Some (JString ''json'')}
       \<and> arg_other_keys raw = []
       \<and> (\<forall>v. arg_poll_interval_seconds raw = Some v \<longrightarrow> integer_within 5 60 v)
       \<and> (\<forall>v. arg_timeout_seconds raw = Some v \<longrightarrow> integer_within 30 600 v)"
  then obtain nm where nm: "z_string_min1 ''operation_name'' (arg_operation_name raw) = Inr nm"
    by (auto simp: z_string_min1_def)
  from ok obtain f where f: "z_ResponseFormat ''response_format'' (arg_response_format raw) = Inr f"
    by (auto simp: z_ResponseFormat_def)
  have "\<exists>p. z_int_range ''poll_interval_seconds'' 5 60 10 (arg_poll_interval_seconds raw) = Inr p
      \<and> arg_poll_interval_seconds raw \<in> {None, Some (JNumber (of_nat p))}
      \<and> (arg_poll_interval_seconds raw = None \<longrightarrow> p = 10) \<and> 5 \<le> p \<and> p \<le> 60"
  proof (cases "arg_poll_interval_seconds raw")
    case None
    then show ?thesis by (simp add: z_int_range_def)
  next
    case (Some v)
    then have "integer_within 5 60 v" using ok by simp
    from z_int_range_accept [OF _ this, of "''poll_interval_seconds''" 10]
    show ?thesis using Some by auto
  qed
  then obtain p where p: "z_int_range ''poll_interval_seconds'' 5 60 10 (arg_poll_interval_seconds raw) = Inr p"
    and p': "arg_poll_interval_seconds raw \<in> {None, Some (JNumber (of_nat p))}"
      "arg_poll_interval_seconds raw = None \<longrightarrow> p = 10" "5 \<le> p" "p \<le> 60"
    by (elim exE conjE)
  have "\<exists>t. z_int_range ''timeout_seconds'' 30 600 300 (arg_timeout_seconds raw) = Inr t
      \<and> arg_timeout_seconds raw \<in> {None, Some (JNumber (of_nat t))}
      \<and> (arg_timeout_seconds raw = None \<longrightarrow> t = 300) \<and> 30 \<le> t \<and> t \<le> 600"
  proof (cases "arg_timeout_seconds raw")
    case None
    then show ?thesis by (simp add: z_int_range_def)
  next
    case (Some v)
    then have "integer_within 30 600 v" using ok by simp
    from z_int_range_accept [OF _ this, of "''timeout_seconds''" 300]
    show ?thesis using Some by auto
  qed
  then obtain t where t: "z_int_range ''timeout_seconds'' 30 600 300 (arg_timeout_seconds raw) = Inr t"
    and t': "arg_timeout_seconds raw \<in> {None, Some (JNumber (of_nat t))}"
      "arg_timeout_seconds raw = None \<longrightarrow> t = 300" "30 \<le> t" "t \<le> 600"
    by (elim exE conjE)
  let ?params = "\<lparr> operation_name = nm, response_format = f,
                   poll_interval_seconds = p, timeout_seconds = t \<rparr>"
  have parse: "WaitForVideoInputSchema raw = Inr ?params"
    using ok by (simp add: WaitForVideoInputSchema_def nm f p t)
  have "0 < poll_interval_seconds ?params" using p' by simp
  from wait_returns [OF this, of w now] obtain res tr where
    run: "veo_wait_for_video w now ?params = Some (res, tr)" and tr: "tr \<noteq> []"
    by blast
  have "call_veo_wait_for_video w now raw = Some (Handled res, tr)"
    by (simp add: call_veo_wait_for_video_def parse run)
  then show "\<exists>params res tr. WaitForVideoInputSchema raw = Inr params
            \<and> arg_poll_interval_seconds raw
                \<in> {None, Some (JNumber (of_nat (poll_interval_seconds params)))}
            \<and> (arg_poll_interval_seconds raw = None \<longrightarrow> poll_interval_seconds params = 10)
            \<and> 5 \<le> poll_interval_seconds params \<and> poll_interval_seconds params \<le> 60
            \<and> arg_timeout_seconds raw
                \<in> {None, Some (JNumber (of_nat (timeout_seconds params)))}
            \<and> (arg_timeout_seconds raw = None \<longrightarrow> timeout_seconds params = 300)
            \<and> 30 \<le> timeout_seconds params \<and> timeout_seconds params \<le> 600
            \<and> veo_wait_for_video w now params = Some (res, tr)
            \<and> call_veo_wait_for_video w now raw = Some (Handled res, tr)
            \<and> tr \<noteq> []"
    using parse run tr p' t'
    by (intro exI [of _ ?params] exI [of _ res] exI [of _ tr]) simp
qed

theorem wait_input_bounds_enforced_witness:
  "call_veo_wait_for_video never_done 0 args_poll_4
     = Some (InvalidParams [(''poll_interval_seconds'', too_small)], [])
   \<and> call_veo_wait_for_video never_done 0 args_timeout_fraction
     = Some (InvalidParams [(''timeout_seconds'', invalid_type)], [])
   \<and> WaitForVideoInputSchema args_ok
     = Inr \<lparr> operation_name = ''abc123'', response_format = JSON,
             poll_interval_seconds = 10, timeout_seconds = 30 \<rparr>
   \<and> call_veo_wait_for_video never_done 0 args_ok
      = Some (Handled (WaitTimeout
          \<lparr> t_operation_name = ''operations/abc123'', t_status = ''timeout'', t_done = False,
            t_elapsed_seconds = 31, t_poll_count = 4,
            t_message = ''Timed out after 30 seconds. The video may still be generating. Use veo_get_operation_status to check later.'' \<rparr>),
          [FetchEv 1 ''operations/abc123'' 0 200, SleepEv 200 10000 10200,
           FetchEv 2 ''operations/abc123'' 10200 10400, SleepEv 10400 10000 20400,
           FetchEv 3 ''operations/abc123'' 20400 20600, SleepEv 20600 10000 30600,
           FetchEv 4 ''operations/abc123'' 30600 30800])"
proof -
  have bad1: "arg_poll_interval_seconds args_poll_4 = Some (JNumber 4)"
    "\<not> integer_within 5 60 (JNumber 4)"
    by (simp_all add: args_poll_4_def args_ok_def integer_within_def)
  have bad2: "arg_timeout_seconds args_timeout_fraction = Some (JNumber (91 / 2))"
    "\<not> integer_within 30 600 (JNumber (91 / 2))"
    by (simp_all add: args_timeout_fraction_def args_ok_def integer_within_def
        fraction_not_integer)
  have good: "integer_within 5 60 (JNumber 10)" "integer_within 30 600 (JNumber 30)"
    by (simp_all add: integer_within_def is_integer_def)
  have parse: "WaitForVideoInputSchema args_ok
     = Inr \<lparr> operation_name = ''abc123'', response_format = JSON,
             poll_interval_seconds = 10, timeout_seconds = 30 \<rparr>"
    by (simp add: WaitForVideoInputSchema_def args_ok_def z_string_min1_def z_int_range_def
        z_ResponseFormat_def is_integer_def Let_def)
  have run: "veo_wait_for_video never_done 0
        \<lparr> operation_name = ''abc123'', response_format = JSON,
          poll_interval_seconds = 10, timeout_seconds = 30 \<rparr>
      = Some (WaitTimeout
          \<lparr> t_operation_name = ''operations/abc123'', t_status = ''timeout'', t_done = False,
            t_elapsed_seconds = 31, t_poll_count = 4,
            t_message = ''Timed out after 30 seconds. The video may still be generating. Use veo_get_operation_status to check later.'' \<rparr>,
          [FetchEv 1 ''operations/abc123'' 0 200, SleepEv 200 10000 10200,
           FetchEv 2 ''operations/abc123'' 10200 10400, SleepEv 10400 10000 20400,
           FetchEv 3 ''operations/abc123'' 20400 20600, SleepEv 20600 10000 30600,
           FetchEv 4 ''operations/abc123'' 30600 30800])"
    by (simp add: Let_def veo_wait_for_video_def poll_loop.simps iteration_def never_done_def
        pending_def truthy_done_def truthy_error_def wait_operationPath_def
        timeout_structured_def round_seconds_def show_nat.simps)
  have a: "\<exists>issues. issues \<noteq> []
      \<and> call_veo_wait_for_video never_done 0 args_poll_4 = Some (InvalidParams issues, [])"
    using wait_input_bounds_enforced [of args_poll_4 never_done 0] bad1 by blast
  have b: "\<exists>issues. issues \<noteq> []
      \<and> call_veo_wait_for_video never_done 0 args_timeout_fraction
          = Some (InvalidParams issues, [])"
    using wait_input_bounds_enforced [of args_timeout_fraction never_done 0] bad2 by blast
  have "(\<exists>nm. arg_operation_name args_ok = Some (JString nm) \<and> nm \<noteq> [])
       \<and> arg_response_format args_ok \<in> {None, Some (JString ''markdown''), Some (JString ''json'')}
       \<and> arg_other_keys args_ok = []
       \<and> (\<forall>v. arg_poll_interval_seconds args_ok = Some v \<longrightarrow> integer_within 5 60 v)
       \<and> (\<forall>v. arg_timeout_seconds args_ok = Some v \<longrightarrow> integer_within 30 600 v)"
    using good by (simp add: args_ok_def)
  with wait_input_bounds_enforced [of args_ok never_done 0]
  have c: "\<exists>params res tr. WaitForVideoInputSchema args_ok = Inr params
      \<and> call_veo_wait_for_video never_done 0 args_ok = Some (Handled res, tr)"
    by blast
  have a': "call_veo_wait_for_video never_done 0 args_poll_4
     = Some (InvalidParams [(''poll_interval_seconds'', too_small)], [])"
    by (simp add: call_veo_wait_for_video_def WaitForVideoInputSchema_def args_poll_4_def
        args_ok_def z_string_min1_def z_int_range_def z_ResponseFormat_def is_integer_def
        issues_of_def Let_def)
  have b': "call_veo_wait_for_video never_done 0 args_timeout_fraction
     = Some (InvalidParams [(''timeout_seconds'', invalid_type)], [])"
    by (simp add: call_veo_wait_for_video_def WaitForVideoInputSchema_def
        args_timeout_fraction_def args_ok_def z_string_min1_def z_int_range_def
        z_ResponseFormat_def fraction_not_integer issues_of_def Let_def)
       (simp add: is_integer_def)
  have c': "call_veo_wait_for_video never_done 0 args_ok
      = Some (Handled (WaitTimeout
          \<lparr> t_operation_name = ''operations/abc123'', t_status = ''timeout'', t_done = False,
            t_elapsed_seconds = 31, t_poll_count = 4,
            t_message = ''Timed out after 30 seconds. The video may still be generating. Use veo_get_operation_status to check later.'' \<rparr>),
          [FetchEv 1 ''operations/abc123'' 0 200, SleepEv 200 10000 10200,
           FetchEv 2 ''operations/abc123'' 10200 10400, SleepEv 10400 10000 20400,
           FetchEv 3 ''operations/abc123'' 20400 20600, SleepEv 20600 10000 30600,
           FetchEv 4 ''operations/abc123'' 30600 30800])"
    by (simp add: call_veo_wait_for_video_def parse run)
  show ?thesis using a b c a' b' c' parse by blast
qed

section \<open>What the two tools request and report\<close>

lemma requested_paths_append:
  "requested_paths (xs @ ys) = requested_paths xs @ requested_paths ys"
  by (induction xs rule: requested_paths.induct) simp_all

text \<open>
  Every request of a wait call is on the normalized path of the call, and there is at
  least one.
\<close>

lemma wait_requests:
  assumes "0 < poll_interval_seconds params"
  shows "\<exists>res tr. veo_wait_for_video w now params = Some (res, tr)
     \<and> requested_paths tr \<noteq> []
     \<and> set (requested_paths tr) = {wait_operationPath (operation_name params)}"
proof -
  let ?path = "wait_operationPath (operation_name params)"
  let ?T = "timeout_seconds params * 1000" and ?P = "poll_interval_seconds params * 1000"
  let ?s = "\<lparr> clock = now, pollCount = 0, trace = [] \<rparr>"
  let ?I = "\<lambda>s. set (requested_paths (trace s)) \<subseteq> {?path}"
  have step: "?I s'" if "?I s" and "iteration w ?path now ?T ?P s = Inr s'" for s s'
    using iteration_Inr [OF that(2)] that(1) by (auto simp: requested_paths_append)
  have "?I ?s" by simp
  then have "\<exists>r s0. poll_loop w ?path now ?T ?P ?s = Some r
      \<and> ?I s0 \<and> iteration w ?path now ?T ?P s0 = Inl r"
    using assms step by (intro poll_loop_rule) auto
  then obtain r s0 where run: "poll_loop w ?path now ?T ?P ?s = Some r"
    and inv: "?I s0"
    and ex: "iteration w ?path now ?T ?P s0 = Inl r"
    by blast
  obtain x s' where r: "r = (x, s')" by (cases r)
  from iteration_Inl [OF ex [unfolded r]] obtain ended where
    s': "s' = \<lparr> clock = ended, pollCount = pollCount s0 + 1,
              trace = trace s0 @ [FetchEv (pollCount s0 + 1) ?path (clock s0) ended] \<rparr>"
    by blast
  have "requested_paths (trace s') \<noteq> []" "set (requested_paths (trace s')) = {?path}"
    using inv unfolding s' by (auto simp: requested_paths_append)
  then show ?thesis using wait_result [OF run [unfolded r]] by blast
qed

text \<open>
  C4. For every operation name, the status tool and the wait tool look the operation
  up under the same key: the name itself when it contains \<open>/\<close>, and the name prefixed
  with \<open>operations/\<close> otherwise. The one request of a status call is on that key, and
  so is every request of a wait call, which makes at least one.
\<close>

theorem tools_request_same_key:
  assumes "operation_name status_params = nm" and "operation_name wait_params = nm"
    and "0 < poll_interval_seconds wait_params"
  shows "\<exists>res tr.
      veo_wait_for_video w now wait_params = Some (res, tr)
      \<and> requested_paths tr \<noteq> []
      \<and> set (requested_paths tr)
          = {if CHR ''/'' \<in> set nm then nm else ''operations/'' @ nm}
      \<and> requested_paths (snd (veo_get_operation_status w' now' status_params))
          = [if CHR ''/'' \<in> set nm then nm else ''operations/'' @ nm]"
proof -
  have "requested_paths (snd (veo_get_operation_status w' now' status_params))
      = [status_operationPath nm]"
    using assms(1)
    by (simp add: veo_get_operation_status_def Let_def split: fetch_outcome.splits)
  moreover have "status_operationPath nm
      = (if CHR ''/'' \<in> set nm then nm else ''operations/'' @ nm)"
    by (simp add: status_operationPath_def)
  moreover have "wait_operationPath (operation_name wait_params)
      = (if CHR ''/'' \<in> set nm then nm else ''operations/'' @ nm)"
    using assms(2) by (simp add: wait_operationPath_def)
  ultimately show ?thesis
    using wait_requests [OF assms(3), of w now] by auto
qed

theorem tools_request_same_key_witness:
  "veo_get_operation_status denied_at_once 7
      \<lparr> operation_name = ''abc123'', response_format = JSON \<rparr>
   = (StatusOk \<lparr> s_operation_name = ''operations/abc123'', s_status = ''failed'',
         s_done = False, s_error = Some \<lparr> code = 7, message = ''denied'' \<rparr>,
         s_video_urls = [] \<rparr>,
      [FetchEv 1 ''operations/abc123'' 7 207])
   \<and> veo_wait_for_video not_found_at_2 0
      \<lparr> operation_name = ''abc123'', response_format = MARKDOWN,
        poll_interval_seconds = 5, timeout_seconds = 30 \<rparr>
   = Some (WaitError ''Error: Resource not found. Operation not found. Check the operation name or model ID.'',
       [FetchEv 1 ''operations/abc123'' 0 200, SleepEv 200 5000 5200,
        FetchEv 2 ''operations/abc123'' 5200 5400])
   \<and> requested_paths [FetchEv 1 ''operations/abc123'' 0 200, SleepEv 200 5000 5200,
        FetchEv 2 ''operations/abc123'' 5200 5400]
      = [''operations/abc123'', ''operations/abc123'']
   \<and> requested_paths (snd (veo_get_operation_status denied_at_once 7
        \<lparr> operation_name = ''a/b'', response_format = JSON \<rparr>)) = [''a/b'']"
proof -
  let ?sp = "\<lparr> operation_name = ''abc123'', response_format = JSON \<rparr>"
  let ?sq = "\<lparr> operation_name = ''a/b'', response_format = JSON \<rparr>"
  let ?wp = "\<lparr> operation_name = ''abc123'', response_format = MARKDOWN,
        poll_interval_seconds = 5, timeout_seconds = 30 \<rparr>"
  let ?wq = "\<lparr> operation_name = ''a/b'', response_format = MARKDOWN,
        poll_interval_seconds = 5, timeout_seconds = 30 \<rparr>"
  have status: "veo_get_operation_status denied_at_once 7 ?sp
   = (StatusOk \<lparr> s_operation_name = ''operations/abc123'', s_status = ''failed'',
         s_done = False, s_error = Some \<lparr> code = 7, message = ''denied'' \<rparr>,
         s_video_urls = [] \<rparr>,
      [FetchEv 1 ''operations/abc123'' 7 207])"
    by (simp add: veo_get_operation_status_def Let_def denied_at_once_def denied_def
        status_operationPath_def status_structured_def truthy_done_def truthy_error_def
        nullish_def optional_video_urls_def optional_samples_def)
  have run: "veo_wait_for_video not_found_at_2 0 ?wp
     = Some (WaitError ''Error: Resource not found. Operation not found. Check the operation name or model ID.'',
       [FetchEv 1 ''operations/abc123'' 0 200, SleepEv 200 5000 5200,
        FetchEv 2 ''operations/abc123'' 5200 5400])"
    by (simp add: Let_def veo_wait_for_video_def poll_loop.simps iteration_def
        not_found_at_2_def pending_def truthy_done_def truthy_error_def
        wait_operationPath_def)
  from tools_request_same_key [of ?sp "''abc123''" ?wp not_found_at_2 0 denied_at_once 7]
  obtain res tr where a: "veo_wait_for_video not_found_at_2 0 ?wp = Some (res, tr)"
    and b: "set (requested_paths tr) = {''operations/abc123''}"
    by auto
  from tools_request_same_key [of ?sq "''a/b''" ?wq not_found_at_2 0 denied_at_once 7]
  have c: "requested_paths (snd (veo_get_operation_status denied_at_once 7 ?sq)) = [''a/b'']"
    by auto
  show ?thesis using status run c by simp
qed

text \<open>
  The outcome built after the loop is built from the snapshot of the last fetch.
\<close>

lemma wait_final_snapshot:
  assumes "0 < poll_interval_seconds params"
    and "veo_wait_for_video w now params = Some (WaitFinal out, tr)"
  shows "\<exists>operation elapsed.
      fetch_reply w (wait_operationPath (operation_name params)) (f_poll_count out)
        = Resolves operation
      \<and> out = final_structured operation elapsed (f_poll_count out)"
proof -
  let ?path = "wait_operationPath (operation_name params)"
  let ?T = "timeout_seconds params * 1000" and ?P = "poll_interval_seconds params * 1000"
  let ?s = "\<lparr> clock = now, pollCount = 0, trace = [] \<rparr>"
  have "\<exists>r s0. poll_loop w ?path now ?T ?P ?s = Some r
      \<and> True \<and> iteration w ?path now ?T ?P s0 = Inl r"
    using assms(1) by (intro poll_loop_rule) auto
  then obtain r s0 where run: "poll_loop w ?path now ?T ?P ?s = Some r"
    and ex: "iteration w ?path now ?T ?P s0 = Inl r"
    by blast
  obtain x s' where r: "r = (x, s')" by (cases r)
  from iteration_Inl [OF ex [unfolded r]] obtain ended where
    x: "x = expected_exit w ?path (ended - now) (pollCount s0 + 1)"
    and pc: "pollCount s' = pollCount s0 + 1"
    by auto
  from wait_result [OF run [unfolded r]] assms(2)
  obtain operation where b: "x = Break operation"
    and out: "out = final_structured operation (clock s' - now) (pollCount s')"
    by (auto split: loop_exit.splits)
  from x b have "fetch_reply w ?path (pollCount s0 + 1) = Resolves operation"
    unfolding expected_exit_def by (auto split: fetch_outcome.splits if_splits)
  moreover have "f_poll_count out = pollCount s0 + 1"
    unfolding out pc by (simp add: final_structured_def)
  ultimately show ?thesis using out pc by auto
qed

text \<open>
  C6 (amended). For the snapshot a status call fetches, the \<^verbatim>\<open>video_urls\<close> of its
  structured output is a list: the video URIs of the generated samples when they are
  present, and the empty list when the response, the \<^verbatim>\<open>generateVideoResponse\<close> or
  the sample list is absent. The same holds for a wait call that returns the outcome
  built after the loop, for the snapshot of its last fetch. A wait call that times
  out returns an output without a \<^verbatim>\<open>video_urls\<close> property, and an error result has none
  either.
\<close>

theorem video_urls_of_tool_outputs:
  "(fetch_reply w (status_operationPath (operation_name status_params)) 1 = Resolves operation
      \<longrightarrow> status_video_urls (fst (veo_get_operation_status w now status_params))
            = Some (video_uris operation))
   \<and> (0 < poll_interval_seconds wait_params \<longrightarrow>
        (\<exists>res tr. veo_wait_for_video w now wait_params = Some (res, tr)
           \<and> (case res of
                 WaitFinal out \<Rightarrow>
                   \<exists>last_snapshot.
                     fetch_reply w (wait_operationPath (operation_name wait_params))
                       (f_poll_count out) = Resolves last_snapshot
                     \<and> wait_video_urls res = Some (video_uris last_snapshot)
               | WaitTimeout out \<Rightarrow> wait_video_urls res = None
               | WaitError text \<Rightarrow> wait_video_urls res = None)))
   \<and> video_uris (operation \<lparr> op_response := None \<rparr>) = []
   \<and> video_uris (operation \<lparr> op_response := Some \<lparr> generateVideoResponse = None \<rparr> \<rparr>) = []
   \<and> video_uris (operation \<lparr> op_response :=
         Some \<lparr> generateVideoResponse = Some \<lparr> generatedSamples = None \<rparr> \<rparr> \<rparr>) = []
   \<and> video_uris (operation \<lparr> op_response :=
         Some \<lparr> generateVideoResponse = Some \<lparr> generatedSamples = Some samples \<rparr> \<rparr> \<rparr>)
       = map (\<lambda>s. uri (video s)) samples"
proof (intro conjI impI)
  assume "fetch_reply w (status_operationPath (operation_name status_params)) 1
      = Resolves operation"
  then show "status_video_urls (fst (veo_get_operation_status w now status_params))
      = Some (video_uris operation)"
    using video_urls_structured [of operation]
    by (simp add: veo_get_operation_status_def Let_def)
next
  assume pos: "0 < poll_interval_seconds wait_params"
  from wait_returns [OF pos, of w now] obtain res tr where
    run: "veo_wait_for_video w now wait_params = Some (res, tr)"
    by blast
  have "case res of
          WaitFinal out \<Rightarrow>
            \<exists>last_snapshot.
              fetch_reply w (wait_operationPath (operation_name wait_params))
                (f_poll_count out) = Resolves last_snapshot
              \<and> wait_video_urls res = Some (video_uris last_snapshot)
        | WaitTimeout out \<Rightarrow> wait_video_urls res = None
        | WaitError text \<Rightarrow> wait_video_urls res = None"
  proof (cases res)
    case (WaitFinal out)
    from wait_final_snapshot [OF pos run [unfolded WaitFinal]]
    obtain last_snapshot elapsed where
      "fetch_reply w (wait_operationPath (operation_name wait_params)) (f_poll_count out)
        = Resolves last_snapshot"
      and "out = final_structured last_snapshot elapsed (f_poll_count out)"
      by blast
    then show ?thesis
      using video_urls_structured [of last_snapshot elapsed "f_poll_count out"] WaitFinal
      by auto
  qed simp_all
  then show "\<exists>res tr. veo_wait_for_video w now wait_params = Some (res, tr)
           \<and> (case res of
                 WaitFinal out \<Rightarrow>
                   \<exists>last_snapshot.
                     fetch_reply w (wait_operationPath (operation_name wait_params))
                       (f_poll_count out) = Resolves last_snapshot
                     \<and> wait_video_urls res = Some (video_uris last_snapshot)
               | WaitTimeout out \<Rightarrow> wait_video_urls res = None
               | WaitError text \<Rightarrow> wait_video_urls res = None)"
    using run by blast
qed (simp_all add: video_uris_def)

theorem video_urls_of_tool_outputs_witness:
  "fetch_reply done_at_once (status_operationPath ''abc123'') 1 = Resolves finished
   \<and> video_uris finished = [''uri1'']
   \<and> status_video_urls (fst (veo_get_operation_status done_at_once 0
        \<lparr> operation_name = ''abc123'', response_format = JSON \<rparr>)) = Some [''uri1'']
   \<and> veo_wait_for_video done_at_once 0
        \<lparr> operation_name = ''abc123'', response_format = JSON,
          poll_interval_seconds = 5, timeout_seconds = 30 \<rparr>
      = Some (WaitFinal
          \<lparr> f_operation_name = ''operations/abc123'', f_status = ''completed'', f_done = True,
            f_elapsed_seconds = 0, f_poll_count = 1, f_error = None,
            f_video_urls = [''uri1''] \<rparr>,
          [FetchEv 1 ''operations/abc123'' 0 200])
   \<and> status_video_urls (fst (veo_get_operation_status never_done 0
        \<lparr> operation_name = ''abc123'', response_format = JSON \<rparr>)) = Some []"
proof -
  let ?sp = "\<lparr> operation_name = ''abc123'', response_format = JSON \<rparr>"
  let ?wp = "\<lparr> operation_name = ''abc123'', response_format = JSON,
          poll_interval_seconds = 5, timeout_seconds = 30 \<rparr>"
  have f: "fetch_reply done_at_once (status_operationPath (operation_name ?sp)) 1
      = Resolves finished"
    by (simp add: done_at_once_def)
  have p: "fetch_reply never_done (status_operationPath (operation_name ?sp)) 1
      = Resolves pending"
    by (simp add: never_done_def)
  have v: "video_uris finished = [''uri1'']" "video_uris pending = []"
    by (simp_all add: video_uris_def finished_def pending_def)
  have a: "status_video_urls (fst (veo_get_operation_status done_at_once 0 ?sp))
      = Some [''uri1'']"
    using video_urls_of_tool_outputs [of done_at_once ?sp finished 0 ?wp] f v by simp
  have b: "status_video_urls (fst (veo_get_operation_status never_done 0 ?sp)) = Some []"
    using video_urls_of_tool_outputs [of never_done ?sp pending 0 ?wp] p v by simp
  have pos: "0 < poll_interval_seconds ?wp" by simp
  from video_urls_of_tool_outputs [of done_at_once ?sp finished 0 ?wp] pos
  have "\<exists>res tr. veo_wait_for_video done_at_once 0 ?wp = Some (res, tr)"
    by blast
  moreover have run: "veo_wait_for_video done_at_once 0 ?wp
      = Some (WaitFinal
          \<lparr> f_operation_name = ''operations/abc123'', f_status = ''completed'', f_done = True,
            f_elapsed_seconds = 0, f_poll_count = 1, f_error = None,
            f_video_urls = [''uri1''] \<rparr>,
          [FetchEv 1 ''operations/abc123'' 0 200])"
    by (simp add: Let_def veo_wait_for_video_def poll_loop.simps iteration_def
        done_at_once_def finished_def truthy_done_def truthy_error_def wait_operationPath_def
        final_structured_def round_seconds_def nullish_def optional_video_urls_def
        optional_samples_def)
  ultimately show ?thesis using a b v f by simp
qed

text \<open>
  A wait call on an operation that stays pending returns the timeout output, which
  has no \<^verbatim>\<open>video_urls\<close>: reading the property gives \<^verbatim>\<open>undefined\<close>, not a list, while
  the status tool reports the empty list for the same snapshot.
\<close>

theorem wait_timeout_has_no_video_urls:
  "veo_wait_for_video never_done 0
      \<lparr> operation_name = ''abc123'', response_format = JSON,
        poll_interval_seconds = 10, timeout_seconds = 30 \<rparr>
   = Some (WaitTimeout
        \<lparr> t_operation_name = ''operations/abc123'', t_status = ''timeout'', t_done = False,
          t_elapsed_seconds = 31, t_poll_count = 4,
          t_message = ''Timed out after 30 seconds. The video may still be generating. Use veo_get_operation_status to check later.'' \<rparr>,
        [FetchEv 1 ''operations/abc123'' 0 200, SleepEv 200 10000 10200,
         FetchEv 2 ''operations/abc123'' 10200 10400, SleepEv 10400 10000 20400,
         FetchEv 3 ''operations/abc123'' 20400 20600, SleepEv 20600 10000 30600,
         FetchEv 4 ''operations/abc123'' 30600 30800])
   \<and> wait_video_urls (WaitTimeout
        \<lparr> t_operation_name = ''operations/abc123'', t_status = ''timeout'', t_done = False,
          t_elapsed_seconds = 31, t_poll_count = 4,
          t_message = ''Timed out after 30 seconds. The video may still be generating. Use veo_get_operation_status to check later.'' \<rparr>)
      = None
   \<and> fetch_reply never_done ''operations/abc123'' 4 = Resolves pending
   \<and> status_video_urls (fst (veo_get_operation_status never_done 0
        \<lparr> operation_name = ''abc123'', response_format = JSON \<rparr>)) = Some []"
  by (simp add: Let_def veo_wait_for_video_def poll_loop.simps iteration_def never_done_def
      pending_def truthy_done_def truthy_error_def wait_operationPath_def
      timeout_structured_def round_seconds_def show_nat.simps
      veo_get_operation_status_def status_operationPath_def status_structured_def
      nullish_def optional_video_urls_def optional_samples_def)

end
